theory Spec2Isabelle
  imports Main "HOL-Library.Word" "HOL-Library.Multiset"
begin

section \<open>Machine integers and resource quantities\<close>

text \<open>
  Go's \<^verbatim>\<open>int64\<close> is a 64-bit word: \<open>+\<close> and \<open>-\<close> wrap around, \<open>sint\<close> reads the
  two's-complement value, and Go's \<^verbatim>\<open>a > b\<close> on \<^verbatim>\<open>int64\<close> is \<open>sint b < sint a\<close>.
\<close>

type_synonym int64 = "64 word"

text \<open>
  \<^verbatim>\<open>resource.Quantity\<close> (k8s.io/apimachinery) is an exact decimal number with a precision
  of three decimal places. It is modelled as the exact number of thousandths (milli-units)
  it denotes. \<^verbatim>\<open>Add\<close> is exact (the library falls back to arbitrary precision when the
  int64 representation would overflow). \<^verbatim>\<open>MilliValue\<close> reads the number of milli-units and
  \<^verbatim>\<open>Value\<close> the number of units rounded up, both as \<^verbatim>\<open>int64\<close>. The code reads
  quantities it has built itself from an \<^verbatim>\<open>int64\<close>, where both readings return that
  \<^verbatim>\<open>int64\<close>, and the allocatable quantities of a node, which enter the results below only
  through these two readings; what the library returns for a quantity beyond the
  \<^verbatim>\<open>int64\<close> range, or for a negative fraction of a unit, is not modelled (here: wrapped,
  and rounded up).
\<close>

type_synonym Quantity = int

definition NewQuantity :: "int64 \<Rightarrow> Quantity" where
  "NewQuantity v = 1000 * sint v"

definition NewMilliQuantity :: "int64 \<Rightarrow> Quantity" where
  "NewMilliQuantity v = sint v"

definition Add :: "Quantity \<Rightarrow> Quantity \<Rightarrow> Quantity" where
  "Add q y = q + y"

definition MilliValue :: "Quantity \<Rightarrow> int64" where
  "MilliValue q = word_of_int q"

definition Value :: "Quantity \<Rightarrow> int64" where
  "Value q = word_of_int (- ((- q) div 1000))"

text \<open>
  Modelled from the spec: \<^verbatim>\<open>k8s_resource.NewCPUQuantity\<close> and
  \<^verbatim>\<open>k8s_resource.NewMemoryQuantity\<close> (package pkg/k8s/resource) are not part of the
  source file. The spec fixes CPU quantities as counts of milli-units and memory
  quantities as counts of bytes.
\<close>

definition NewCPUQuantity :: "int64 \<Rightarrow> Quantity" where
  "NewCPUQuantity v = NewMilliQuantity v"

definition NewMemoryQuantity :: "int64 \<Rightarrow> Quantity" where
  "NewMemoryQuantity v = NewQuantity v"

section \<open>Data model\<close>

text \<open>
  \<^verbatim>\<open>scheduler.Resource\<close>, the result of \<^verbatim>\<open>scheduler.ComputePodResourceRequest\<close>. The
  function itself lives in another package; every definition below takes it as the
  parameter \<open>cprr\<close>.
\<close>

record Resource =
  MilliCPU :: int64
  Memory :: int64

record ResourceItem =
  CPU :: Quantity
  Memory :: Quantity

record PodRequestedUsage =
  Total :: ResourceItem
  LargestMemory :: ResourceItem
  LargestCPU :: ResourceItem

record NodeAvailableCapacity =
  Total :: ResourceItem
  LargestAvailableMemory :: ResourceItem
  LargestAvailableCPU :: ResourceItem

text \<open>
  The parts of \<^verbatim>\<open>v1.Pod\<close> and \<^verbatim>\<open>v1.Node\<close> that the code reads. Phases, condition types
  and condition statuses are Go strings. The pod's spec is only read by the request
  computation and is left polymorphic. \<^verbatim>\<open>Allocatable\<close> is a Go map from resource name to
  quantity. The slices hold non-nil pointers, which are modelled by the values they
  point to.
\<close>

record PodCondition =
  Type :: string
  Status :: string

record PodStatus =
  Phase :: string
  Conditions :: "PodCondition list"
  NominatedNodeName :: string

record 'spec Pod =
  Spec :: 'spec
  Status :: PodStatus

record NodeStatus =
  Allocatable :: "string \<rightharpoonup> Quantity"

record Node =
  Name :: string
  Status :: NodeStatus

datatype error = Error string

definition PodPending :: string where "PodPending = ''Pending''"
definition PodRunning :: string where "PodRunning = ''Running''"
definition PodSucceeded :: string where "PodSucceeded = ''Succeeded''"
definition PodScheduled :: string where "PodScheduled = ''PodScheduled''"
definition ConditionTrue :: string where "ConditionTrue = ''True''"
definition ConditionFalse :: string where "ConditionFalse = ''False''"
definition ConditionUnknown :: string where "ConditionUnknown = ''Unknown''"
definition ResourceCPU :: string where "ResourceCPU = ''cpu''"
definition ResourceMemory :: string where "ResourceMemory = ''memory''"

text \<open>
  \<^verbatim>\<open>ResourceList.Cpu()\<close> and \<^verbatim>\<open>ResourceList.Memory()\<close>: the entry of the map, or the zero
  quantity when the key is absent.
\<close>

definition Cpu :: "(string \<rightharpoonup> Quantity) \<Rightarrow> Quantity" where
  "Cpu rl = (case rl ResourceCPU of Some q \<Rightarrow> q | None \<Rightarrow> 0)"

definition Memory_of :: "(string \<rightharpoonup> Quantity) \<Rightarrow> Quantity" where
  "Memory_of rl = (case rl ResourceMemory of Some q \<Rightarrow> q | None \<Rightarrow> 0)"

section \<open>Constructors\<close>

definition newEmptyResourceItem :: ResourceItem where
  "newEmptyResourceItem = \<lparr>CPU = NewCPUQuantity 0, ResourceItem.Memory = NewMemoryQuantity 0\<rparr>"

definition newResourceItem :: "int64 \<Rightarrow> int64 \<Rightarrow> ResourceItem" where
  "newResourceItem cpu memory = \<lparr>CPU = NewCPUQuantity cpu, ResourceItem.Memory = NewMemoryQuantity memory\<rparr>"

definition NewPodRequestedUsage :: PodRequestedUsage where
  "NewPodRequestedUsage =
     \<lparr>PodRequestedUsage.Total = newEmptyResourceItem,
      LargestMemory = newEmptyResourceItem,
      LargestCPU = newEmptyResourceItem\<rparr>"

definition newNodeAvailableCapacity :: NodeAvailableCapacity where
  "newNodeAvailableCapacity =
     \<lparr>NodeAvailableCapacity.Total = newEmptyResourceItem,
      LargestAvailableMemory = newEmptyResourceItem,
      LargestAvailableCPU = newEmptyResourceItem\<rparr>"

section \<open>CalculatePodsRequestedUsage\<close>

text \<open>One iteration of the loop over the pods, on the accumulator \<open>ret\<close>.\<close>

definition CalculatePodsRequestedUsage_body ::
  "('spec Pod \<Rightarrow> Resource) \<Rightarrow> PodRequestedUsage \<Rightarrow> 'spec Pod \<Rightarrow> PodRequestedUsage" where
  "CalculatePodsRequestedUsage_body cprr ret pod =
     (let podResources = cprr pod;
          ret = ret\<lparr>PodRequestedUsage.Total := (PodRequestedUsage.Total ret)
                  \<lparr>ResourceItem.Memory :=
                     Add (ResourceItem.Memory (PodRequestedUsage.Total ret))
                         (NewMemoryQuantity (Resource.Memory podResources))\<rparr>\<rparr>;
          ret = ret\<lparr>PodRequestedUsage.Total := (PodRequestedUsage.Total ret)
                  \<lparr>CPU := Add (CPU (PodRequestedUsage.Total ret))
                              (NewCPUQuantity (MilliCPU podResources))\<rparr>\<rparr>
      in if Phase (Pod.Status pod) = PodPending then
           (let ret =
                  (if sint (Value (ResourceItem.Memory (LargestMemory ret)))
                        < sint (Resource.Memory podResources)
                   then ret\<lparr>LargestMemory :=
                          newResourceItem (MilliCPU podResources) (Resource.Memory podResources)\<rparr>
                   else ret);
                ret =
                  (if sint (MilliValue (CPU (LargestCPU ret))) < sint (MilliCPU podResources)
                   then ret\<lparr>LargestCPU :=
                          newResourceItem (MilliCPU podResources) (Resource.Memory podResources)\<rparr>
                   else ret)
            in ret)
         else ret)"

definition CalculatePodsRequestedUsage ::
  "('spec Pod \<Rightarrow> Resource) \<Rightarrow> 'spec Pod list \<Rightarrow> PodRequestedUsage \<times> error option" where
  "CalculatePodsRequestedUsage cprr pods =
     (let ret = NewPodRequestedUsage;
          ret = foldl (CalculatePodsRequestedUsage_body cprr) ret pods
      in (ret, None))"

section \<open>Pod classification\<close>

text \<open>The loop of \<^verbatim>\<open>isPodScheduled\<close> returns at the first condition of type PodScheduled.\<close>

fun isPodScheduled_loop :: "PodCondition list \<Rightarrow> bool" where
  "isPodScheduled_loop [] = False"
| "isPodScheduled_loop (condition # conditions) =
     (if Type condition = PodScheduled then PodCondition.Status condition = ConditionTrue
      else isPodScheduled_loop conditions)"

definition isPodScheduled :: "'spec Pod \<Rightarrow> bool" where
  "isPodScheduled pod = isPodScheduled_loop (Conditions (Pod.Status pod))"

definition isPodUsingNodeResources :: "'spec Pod \<Rightarrow> bool" where
  "isPodUsingNodeResources pod \<longleftrightarrow>
     isPodScheduled pod \<and>
     (Phase (Pod.Status pod) = PodPending \<or> Phase (Pod.Status pod) = PodRunning)"

section \<open>Grouping and per-node sums\<close>

text \<open>
  The Go map from node name to pod slice is a partial function. A key that is not found
  is first bound to the empty slice, then the pod is appended.
\<close>

definition mapPods_body ::
  "(string \<rightharpoonup> 'spec Pod list) \<Rightarrow> 'spec Pod \<Rightarrow> (string \<rightharpoonup> 'spec Pod list)" where
  "mapPods_body ret pod =
     (let name = NominatedNodeName (Pod.Status pod)
      in case ret name of
           None \<Rightarrow> (let ret = ret(name \<mapsto> []) in ret(name \<mapsto> [] @ [pod]))
         | Some val \<Rightarrow> ret(name \<mapsto> val @ [pod]))"

definition mapPods :: "'spec Pod list \<Rightarrow> (string \<rightharpoonup> 'spec Pod list)" where
  "mapPods pods = foldl mapPods_body Map.empty pods"

definition sumByFunc :: "'spec Pod list \<Rightarrow> ('spec Pod \<Rightarrow> int64) \<Rightarrow> int64" where
  "sumByFunc pods f =
     foldl (\<lambda>ret pod. if isPodUsingNodeResources pod then ret + f pod else ret) 0 pods"

text \<open>Indexing a Go map with an absent key gives the nil slice, which has no elements.\<close>

definition GetNodeAvailableResources ::
  "('spec Pod \<Rightarrow> Resource) \<Rightarrow> Node \<Rightarrow> (string \<rightharpoonup> 'spec Pod list) \<Rightarrow> ResourceItem" where
  "GetNodeAvailableResources cprr node pods =
     (let filteredPods = (case pods (Name node) of Some ps \<Rightarrow> ps | None \<Rightarrow> []);
          usedCpu = sumByFunc filteredPods (\<lambda>pod. MilliCPU (cprr pod));
          usedMemory = sumByFunc filteredPods (\<lambda>pod. Resource.Memory (cprr pod))
      in newResourceItem
           (MilliValue (Cpu (Allocatable (Node.Status node))) - usedCpu)
           (Value (Memory_of (Allocatable (Node.Status node))) - usedMemory))"

section \<open>CalculateNodesCapacity\<close>

text \<open>One iteration of the loop over the nodes, on the accumulator \<open>ret\<close>.\<close>

definition CalculateNodesCapacity_body ::
  "('spec Pod \<Rightarrow> Resource) \<Rightarrow> (string \<rightharpoonup> 'spec Pod list) \<Rightarrow>
   NodeAvailableCapacity \<Rightarrow> Node \<Rightarrow> NodeAvailableCapacity" where
  "CalculateNodesCapacity_body cprr mappedPods ret node =
     (let ret = ret\<lparr>NodeAvailableCapacity.Total := (NodeAvailableCapacity.Total ret)
                  \<lparr>ResourceItem.Memory :=
                     Add (ResourceItem.Memory (NodeAvailableCapacity.Total ret))
                         (Memory_of (Allocatable (Node.Status node)))\<rparr>\<rparr>;
          ret = ret\<lparr>NodeAvailableCapacity.Total := (NodeAvailableCapacity.Total ret)
                  \<lparr>CPU := Add (CPU (NodeAvailableCapacity.Total ret))
                              (Cpu (Allocatable (Node.Status node)))\<rparr>\<rparr>;
          availableResource = GetNodeAvailableResources cprr node mappedPods;
          ret =
            (if sint (MilliValue (CPU (LargestAvailableCPU ret)))
                  < sint (MilliValue (CPU availableResource))
             then ret\<lparr>LargestAvailableCPU :=
                    \<lparr>CPU = Cpu (Allocatable (Node.Status node)),
                     ResourceItem.Memory = Memory_of (Allocatable (Node.Status node))\<rparr>\<rparr>
             else ret);
          ret =
            (if sint (Value (ResourceItem.Memory (LargestAvailableMemory ret)))
                  < sint (Value (ResourceItem.Memory availableResource))
             then ret\<lparr>LargestAvailableMemory :=
                    \<lparr>CPU = Cpu (Allocatable (Node.Status node)),
                     ResourceItem.Memory = Memory_of (Allocatable (Node.Status node))\<rparr>\<rparr>
             else ret)
      in ret)"

definition CalculateNodesCapacity ::
  "('spec Pod \<Rightarrow> Resource) \<Rightarrow> Node list \<Rightarrow> 'spec Pod list \<Rightarrow>
   NodeAvailableCapacity \<times> error option" where
  "CalculateNodesCapacity cprr nodes pods =
     (let ret = newNodeAvailableCapacity;
          mappedPods = mapPods pods;
          ret = foldl (CalculateNodesCapacity_body cprr mappedPods) ret nodes
      in (ret, None))"

section \<open>Example inputs\<close>

text \<open>
  Concrete pods and nodes for the instances below. In the examples the pod's spec is its
  computed request itself, so that the request computation is \<open>Spec\<close>.
\<close>

definition examplePod ::
  "string \<Rightarrow> PodCondition list \<Rightarrow> string \<Rightarrow> int64 \<Rightarrow> int64 \<Rightarrow> Resource Pod" where
  "examplePod phase conditions nominated cpu memory =
     \<lparr>Spec = \<lparr>MilliCPU = cpu, Resource.Memory = memory\<rparr>,
      Pod.Status = \<lparr>Phase = phase, Conditions = conditions, NominatedNodeName = nominated\<rparr>\<rparr>"

definition exampleNode :: "string \<Rightarrow> int64 \<Rightarrow> int64 \<Rightarrow> Node" where
  "exampleNode name cpu memory =
     \<lparr>Name = name,
      Node.Status = \<lparr>Allocatable =
        [ResourceCPU \<mapsto> NewCPUQuantity cpu, ResourceMemory \<mapsto> NewMemoryQuantity memory]\<rparr>\<rparr>"

definition scheduledTrue :: "PodCondition list" where
  "scheduledTrue = [\<lparr>Type = PodScheduled, PodCondition.Status = ConditionTrue\<rparr>]"

section \<open>Quantities built from int64 values\<close>

lemma Value_NewMemoryQuantity: "Value (NewMemoryQuantity v) = v"
proof -
  have "- (1000 * sint v) = 1000 * (- sint v)" by simp
  then have "(- (1000 * sint v)) div 1000 = - sint v"
    by (simp only: nonzero_mult_div_cancel_left)
  then show ?thesis
    by (simp add: Value_def NewMemoryQuantity_def NewQuantity_def)
qed

lemma MilliValue_NewCPUQuantity: "MilliValue (NewCPUQuantity v) = v"
  by (simp add: MilliValue_def NewCPUQuantity_def NewMilliQuantity_def)

lemma Value_newResourceItem: "Value (ResourceItem.Memory (newResourceItem c m)) = m"
  by (simp add: newResourceItem_def Value_NewMemoryQuantity)

lemma MilliValue_newResourceItem: "MilliValue (CPU (newResourceItem c m)) = c"
  by (simp add: newResourceItem_def MilliValue_NewCPUQuantity)

lemma Value_newEmptyResourceItem: "Value (ResourceItem.Memory newEmptyResourceItem) = 0"
  by (simp add: newEmptyResourceItem_def Value_NewMemoryQuantity)

lemma MilliValue_newEmptyResourceItem: "MilliValue (CPU newEmptyResourceItem) = 0"
  by (simp add: newEmptyResourceItem_def MilliValue_NewCPUQuantity)

section \<open>The loop of CalculatePodsRequestedUsage\<close>

lemma body_LargestMemory:
  "LargestMemory (CalculatePodsRequestedUsage_body cprr ret pod) =
     (if Phase (Pod.Status pod) = PodPending \<and>
         sint (Value (ResourceItem.Memory (LargestMemory ret))) < sint (Resource.Memory (cprr pod))
      then newResourceItem (MilliCPU (cprr pod)) (Resource.Memory (cprr pod))
      else LargestMemory ret)"
  by (simp add: CalculatePodsRequestedUsage_body_def Let_def)

lemma body_LargestCPU:
  "LargestCPU (CalculatePodsRequestedUsage_body cprr ret pod) =
     (if Phase (Pod.Status pod) = PodPending \<and>
         sint (MilliValue (CPU (LargestCPU ret))) < sint (MilliCPU (cprr pod))
      then newResourceItem (MilliCPU (cprr pod)) (Resource.Memory (cprr pod))
      else LargestCPU ret)"
  by (simp add: CalculatePodsRequestedUsage_body_def Let_def)

lemma body_Total:
  "PodRequestedUsage.Total (CalculatePodsRequestedUsage_body cprr ret pod) =
     \<lparr>CPU = CPU (PodRequestedUsage.Total ret) + NewCPUQuantity (MilliCPU (cprr pod)),
      ResourceItem.Memory = ResourceItem.Memory (PodRequestedUsage.Total ret)
         + NewMemoryQuantity (Resource.Memory (cprr pod))\<rparr>"
  by (simp add: CalculatePodsRequestedUsage_body_def Let_def Add_def)


lemma loop_LargestMemory_keep:
  "\<forall>q\<in>set pods. Phase (Pod.Status q) = PodPending \<longrightarrow>
       sint (Resource.Memory (cprr q)) \<le> sint (Value (ResourceItem.Memory (LargestMemory ret)))
   \<Longrightarrow> LargestMemory (foldl (CalculatePodsRequestedUsage_body cprr) ret pods) = LargestMemory ret"
proof (induction pods arbitrary: ret)
  case Nil
  then show ?case by simp
next
  case (Cons q pods)
  have step: "LargestMemory (CalculatePodsRequestedUsage_body cprr ret q) = LargestMemory ret"
    using Cons.prems by (auto simp: body_LargestMemory)
  have "LargestMemory (foldl (CalculatePodsRequestedUsage_body cprr)
           (CalculatePodsRequestedUsage_body cprr ret q) pods)
        = LargestMemory (CalculatePodsRequestedUsage_body cprr ret q)"
    using Cons.prems by (intro Cons.IH) (simp add: step)
  then show ?case by (simp add: step)
qed


lemma loop_LargestMemory_below:
  "sint (Value (ResourceItem.Memory (LargestMemory ret))) < m \<Longrightarrow>
   \<forall>q\<in>set pods. Phase (Pod.Status q) = PodPending \<longrightarrow> sint (Resource.Memory (cprr q)) < m
   \<Longrightarrow> sint (Value (ResourceItem.Memory
          (LargestMemory (foldl (CalculatePodsRequestedUsage_body cprr) ret pods)))) < m"
proof (induction pods arbitrary: ret)
  case Nil
  then show ?case by simp
next
  case (Cons q pods)
  have "sint (Value (ResourceItem.Memory
          (LargestMemory (CalculatePodsRequestedUsage_body cprr ret q)))) < m"
    using Cons.prems by (simp add: body_LargestMemory Value_newResourceItem)
  then show ?case
    using Cons.prems(2) by (simp add: Cons.IH)
qed

lemma loop_LargestMemory_first_max:
  assumes pend: "Phase (Pod.Status p) = PodPending"
    and init: "sint (Value (ResourceItem.Memory (LargestMemory ret))) < sint (Resource.Memory (cprr p))"
    and before: "\<forall>q\<in>set xs. Phase (Pod.Status q) = PodPending \<longrightarrow>
                   sint (Resource.Memory (cprr q)) < sint (Resource.Memory (cprr p))"
    and after: "\<forall>q\<in>set ys. Phase (Pod.Status q) = PodPending \<longrightarrow>
                   sint (Resource.Memory (cprr q)) \<le> sint (Resource.Memory (cprr p))"
  shows "LargestMemory (foldl (CalculatePodsRequestedUsage_body cprr) ret (xs @ p # ys))
           = newResourceItem (MilliCPU (cprr p)) (Resource.Memory (cprr p))"
proof -
  let ?r1 = "foldl (CalculatePodsRequestedUsage_body cprr) ret xs"
  let ?r2 = "CalculatePodsRequestedUsage_body cprr ?r1 p"
  have "sint (Value (ResourceItem.Memory (LargestMemory ?r1))) < sint (Resource.Memory (cprr p))"
    using init before by (rule loop_LargestMemory_below)
  then have r2: "LargestMemory ?r2 = newResourceItem (MilliCPU (cprr p)) (Resource.Memory (cprr p))"
    using pend by (simp add: body_LargestMemory)
  have "LargestMemory (foldl (CalculatePodsRequestedUsage_body cprr) ?r2 ys) = LargestMemory ?r2"
    using after by (intro loop_LargestMemory_keep) (simp add: r2 Value_newResourceItem)
  then show ?thesis by (simp add: r2)
qed

lemma loop_LargestCPU_keep:
  "\<forall>q\<in>set pods. Phase (Pod.Status q) = PodPending \<longrightarrow>
       sint (MilliCPU (cprr q)) \<le> sint (MilliValue (CPU (LargestCPU ret)))
   \<Longrightarrow> LargestCPU (foldl (CalculatePodsRequestedUsage_body cprr) ret pods) = LargestCPU ret"
proof (induction pods arbitrary: ret)
  case Nil
  then show ?case by simp
next
  case (Cons q pods)
  have step: "LargestCPU (CalculatePodsRequestedUsage_body cprr ret q) = LargestCPU ret"
    using Cons.prems by (auto simp: body_LargestCPU)
  have "LargestCPU (foldl (CalculatePodsRequestedUsage_body cprr)
           (CalculatePodsRequestedUsage_body cprr ret q) pods)
        = LargestCPU (CalculatePodsRequestedUsage_body cprr ret q)"
    using Cons.prems by (intro Cons.IH) (simp add: step)
  then show ?case by (simp add: step)
qed

lemma loop_LargestCPU_below:
  "sint (MilliValue (CPU (LargestCPU ret))) < m \<Longrightarrow>
   \<forall>q\<in>set pods. Phase (Pod.Status q) = PodPending \<longrightarrow> sint (MilliCPU (cprr q)) < m
   \<Longrightarrow> sint (MilliValue (CPU
          (LargestCPU (foldl (CalculatePodsRequestedUsage_body cprr) ret pods)))) < m"
proof (induction pods arbitrary: ret)
  case Nil
  then show ?case by simp
next
  case (Cons q pods)
  have "sint (MilliValue (CPU
          (LargestCPU (CalculatePodsRequestedUsage_body cprr ret q)))) < m"
    using Cons.prems by (simp add: body_LargestCPU MilliValue_newResourceItem)
  then show ?case
    using Cons.prems(2) by (simp add: Cons.IH)
qed

lemma loop_LargestCPU_first_max:
  assumes pend: "Phase (Pod.Status p) = PodPending"
    and init: "sint (MilliValue (CPU (LargestCPU ret))) < sint (MilliCPU (cprr p))"
    and before: "\<forall>q\<in>set xs. Phase (Pod.Status q) = PodPending \<longrightarrow>
                   sint (MilliCPU (cprr q)) < sint (MilliCPU (cprr p))"
    and after: "\<forall>q\<in>set ys. Phase (Pod.Status q) = PodPending \<longrightarrow>
                   sint (MilliCPU (cprr q)) \<le> sint (MilliCPU (cprr p))"
  shows "LargestCPU (foldl (CalculatePodsRequestedUsage_body cprr) ret (xs @ p # ys))
           = newResourceItem (MilliCPU (cprr p)) (Resource.Memory (cprr p))"
proof -
  let ?r1 = "foldl (CalculatePodsRequestedUsage_body cprr) ret xs"
  let ?r2 = "CalculatePodsRequestedUsage_body cprr ?r1 p"
  have "sint (MilliValue (CPU (LargestCPU ?r1))) < sint (MilliCPU (cprr p))"
    using init before by (rule loop_LargestCPU_below)
  then have r2: "LargestCPU ?r2 = newResourceItem (MilliCPU (cprr p)) (Resource.Memory (cprr p))"
    using pend by (simp add: body_LargestCPU)
  have "LargestCPU (foldl (CalculatePodsRequestedUsage_body cprr) ?r2 ys) = LargestCPU ?r2"
    using after by (intro loop_LargestCPU_keep) (simp add: r2 MilliValue_newResourceItem)
  then show ?thesis by (simp add: r2)
qed

lemma NewPodRequestedUsage_LargestMemory: "LargestMemory NewPodRequestedUsage = newEmptyResourceItem"
  by (simp add: NewPodRequestedUsage_def)

lemma NewPodRequestedUsage_LargestCPU: "LargestCPU NewPodRequestedUsage = newEmptyResourceItem"
  by (simp add: NewPodRequestedUsage_def)

lemma fst_CalculatePodsRequestedUsage:
  "fst (CalculatePodsRequestedUsage cprr pods)
     = foldl (CalculatePodsRequestedUsage_body cprr) NewPodRequestedUsage pods"
  by (simp add: CalculatePodsRequestedUsage_def Let_def)


section \<open>Empty inputs and the error result\<close>

text \<open>
  C9. On an empty pod list \<^verbatim>\<open>CalculatePodsRequestedUsage\<close> returns a usage whose Total,
  LargestMemory and LargestCPU are zero in CPU and in Memory, and on empty node and pod
  lists \<^verbatim>\<open>CalculateNodesCapacity\<close> returns a capacity whose Total, LargestAvailableMemory
  and LargestAvailableCPU are zero in CPU and in Memory; both calls return, with the nil
  error.
\<close>

theorem empty_input_all_zero:
  "CalculatePodsRequestedUsage cprr [] =
     (\<lparr>PodRequestedUsage.Total = \<lparr>CPU = 0, ResourceItem.Memory = 0\<rparr>,
       LargestMemory = \<lparr>CPU = 0, ResourceItem.Memory = 0\<rparr>,
       LargestCPU = \<lparr>CPU = 0, ResourceItem.Memory = 0\<rparr>\<rparr>, None)
   \<and> CalculateNodesCapacity cprr [] [] =
     (\<lparr>NodeAvailableCapacity.Total = \<lparr>CPU = 0, ResourceItem.Memory = 0\<rparr>,
       LargestAvailableMemory = \<lparr>CPU = 0, ResourceItem.Memory = 0\<rparr>,
       LargestAvailableCPU = \<lparr>CPU = 0, ResourceItem.Memory = 0\<rparr>\<rparr>, None)"
  by (simp add: CalculatePodsRequestedUsage_def CalculateNodesCapacity_def
      NewPodRequestedUsage_def newNodeAvailableCapacity_def newEmptyResourceItem_def
      NewCPUQuantity_def NewMemoryQuantity_def NewQuantity_def NewMilliQuantity_def)

text \<open>
  C10. For every input, the error returned by \<^verbatim>\<open>CalculatePodsRequestedUsage\<close> and by
  \<^verbatim>\<open>CalculateNodesCapacity\<close> is nil.
\<close>

theorem error_always_nil:
  "snd (CalculatePodsRequestedUsage cprr pods) = None
   \<and> snd (CalculateNodesCapacity cprr nodes pods) = None"
  by (simp add: CalculatePodsRequestedUsage_def CalculateNodesCapacity_def Let_def)

section \<open>A strictly largest Pending request\<close>

lemma LargestMemory_unique_max:
  assumes mem: "p \<in> set pods" and pend: "Phase (Pod.Status p) = PodPending"
    and pos: "0 < sint (Resource.Memory (cprr p))"
    and uniq: "\<forall>q\<in>set pods. Phase (Pod.Status q) = PodPending \<and> q \<noteq> p \<longrightarrow>
                  sint (Resource.Memory (cprr q)) < sint (Resource.Memory (cprr p))"
  shows "LargestMemory (fst (CalculatePodsRequestedUsage cprr pods))
           = newResourceItem (MilliCPU (cprr p)) (Resource.Memory (cprr p))"
proof -
  from mem obtain xs ys where split: "pods = xs @ p # ys" and notin: "p \<notin> set xs"
    by (auto dest: split_list_first)
  have before: "\<forall>q\<in>set xs. Phase (Pod.Status q) = PodPending \<longrightarrow>
                   sint (Resource.Memory (cprr q)) < sint (Resource.Memory (cprr p))"
    using uniq notin split by auto
  have after: "\<forall>q\<in>set ys. Phase (Pod.Status q) = PodPending \<longrightarrow>
                   sint (Resource.Memory (cprr q)) \<le> sint (Resource.Memory (cprr p))"
    using uniq split by (auto simp: less_imp_le)
  have init: "sint (Value (ResourceItem.Memory (LargestMemory NewPodRequestedUsage)))
                < sint (Resource.Memory (cprr p))"
    using pos by (simp add: NewPodRequestedUsage_LargestMemory Value_newEmptyResourceItem)
  show ?thesis
    unfolding fst_CalculatePodsRequestedUsage split
    using pend init before after by (rule loop_LargestMemory_first_max)
qed

lemma LargestMemory_nonpositive:
  assumes "\<forall>q\<in>set pods. Phase (Pod.Status q) = PodPending \<longrightarrow> sint (Resource.Memory (cprr q)) \<le> 0"
  shows "LargestMemory (fst (CalculatePodsRequestedUsage cprr pods)) = newEmptyResourceItem"
proof -
  have "LargestMemory (foldl (CalculatePodsRequestedUsage_body cprr) NewPodRequestedUsage pods)
          = LargestMemory NewPodRequestedUsage"
    using assms
    by (intro loop_LargestMemory_keep)
       (simp add: NewPodRequestedUsage_LargestMemory Value_newEmptyResourceItem)
  then show ?thesis
    by (simp add: fst_CalculatePodsRequestedUsage NewPodRequestedUsage_LargestMemory)
qed

lemma LargestMemory_order_independent:
  assumes perm: "mset pods' = mset pods"
    and mem: "p \<in> set pods" and pend: "Phase (Pod.Status p) = PodPending"
    and uniq: "\<forall>q\<in>set pods. Phase (Pod.Status q) = PodPending \<and> q \<noteq> p \<longrightarrow>
                  sint (Resource.Memory (cprr q)) < sint (Resource.Memory (cprr p))"
  shows "LargestMemory (fst (CalculatePodsRequestedUsage cprr pods'))
           = LargestMemory (fst (CalculatePodsRequestedUsage cprr pods))"
proof -
  have sets: "set pods' = set pods" using perm by (rule mset_eq_setD)
  show ?thesis
  proof (cases "0 < sint (Resource.Memory (cprr p))")
    case True
    have "LargestMemory (fst (CalculatePodsRequestedUsage cprr pods'))
            = newResourceItem (MilliCPU (cprr p)) (Resource.Memory (cprr p))"
      using mem pend True uniq unfolding sets [symmetric] by (rule LargestMemory_unique_max)
    moreover have "LargestMemory (fst (CalculatePodsRequestedUsage cprr pods))
            = newResourceItem (MilliCPU (cprr p)) (Resource.Memory (cprr p))"
      using mem pend True uniq by (rule LargestMemory_unique_max)
    ultimately show ?thesis by simp
  next
    case False
    have le: "\<forall>q\<in>set pods. Phase (Pod.Status q) = PodPending \<longrightarrow> sint (Resource.Memory (cprr q)) \<le> 0"
    proof (intro ballI impI)
      fix q assume q: "q \<in> set pods" "Phase (Pod.Status q) = PodPending"
      show "sint (Resource.Memory (cprr q)) \<le> 0"
      proof (cases "q = p")
        case True then show ?thesis using False by simp
      next
        case False
        then have "sint (Resource.Memory (cprr q)) < sint (Resource.Memory (cprr p))"
          using uniq q by simp
        then show ?thesis using \<open>\<not> 0 < sint (Resource.Memory (cprr p))\<close> by simp
      qed
    qed
    have "LargestMemory (fst (CalculatePodsRequestedUsage cprr pods')) = newEmptyResourceItem"
      using le unfolding sets [symmetric] by (rule LargestMemory_nonpositive)
    moreover have "LargestMemory (fst (CalculatePodsRequestedUsage cprr pods)) = newEmptyResourceItem"
      using le by (rule LargestMemory_nonpositive)
    ultimately show ?thesis by simp
  qed
qed

lemma LargestCPU_unique_max:
  assumes mem: "p \<in> set pods" and pend: "Phase (Pod.Status p) = PodPending"
    and pos: "0 < sint (MilliCPU (cprr p))"
    and uniq: "\<forall>q\<in>set pods. Phase (Pod.Status q) = PodPending \<and> q \<noteq> p \<longrightarrow>
                  sint (MilliCPU (cprr q)) < sint (MilliCPU (cprr p))"
  shows "LargestCPU (fst (CalculatePodsRequestedUsage cprr pods))
           = newResourceItem (MilliCPU (cprr p)) (Resource.Memory (cprr p))"
proof -
  from mem obtain xs ys where split: "pods = xs @ p # ys" and notin: "p \<notin> set xs"
    by (auto dest: split_list_first)
  have before: "\<forall>q\<in>set xs. Phase (Pod.Status q) = PodPending \<longrightarrow>
                   sint (MilliCPU (cprr q)) < sint (MilliCPU (cprr p))"
    using uniq notin split by auto
  have after: "\<forall>q\<in>set ys. Phase (Pod.Status q) = PodPending \<longrightarrow>
                   sint (MilliCPU (cprr q)) \<le> sint (MilliCPU (cprr p))"
    using uniq split by (auto simp: less_imp_le)
  have init: "sint (MilliValue (CPU (LargestCPU NewPodRequestedUsage)))
                < sint (MilliCPU (cprr p))"
    using pos by (simp add: NewPodRequestedUsage_LargestCPU MilliValue_newEmptyResourceItem)
  show ?thesis
    unfolding fst_CalculatePodsRequestedUsage split
    using pend init before after by (rule loop_LargestCPU_first_max)
qed

lemma LargestCPU_nonpositive:
  assumes "\<forall>q\<in>set pods. Phase (Pod.Status q) = PodPending \<longrightarrow> sint (MilliCPU (cprr q)) \<le> 0"
  shows "LargestCPU (fst (CalculatePodsRequestedUsage cprr pods)) = newEmptyResourceItem"
proof -
  have "LargestCPU (foldl (CalculatePodsRequestedUsage_body cprr) NewPodRequestedUsage pods)
          = LargestCPU NewPodRequestedUsage"
    using assms
    by (intro loop_LargestCPU_keep)
       (simp add: NewPodRequestedUsage_LargestCPU MilliValue_newEmptyResourceItem)
  then show ?thesis
    by (simp add: fst_CalculatePodsRequestedUsage NewPodRequestedUsage_LargestCPU)
qed

lemma LargestCPU_order_independent:
  assumes perm: "mset pods' = mset pods"
    and mem: "p \<in> set pods" and pend: "Phase (Pod.Status p) = PodPending"
    and uniq: "\<forall>q\<in>set pods. Phase (Pod.Status q) = PodPending \<and> q \<noteq> p \<longrightarrow>
                  sint (MilliCPU (cprr q)) < sint (MilliCPU (cprr p))"
  shows "LargestCPU (fst (CalculatePodsRequestedUsage cprr pods'))
           = LargestCPU (fst (CalculatePodsRequestedUsage cprr pods))"
proof -
  have sets: "set pods' = set pods" using perm by (rule mset_eq_setD)
  show ?thesis
  proof (cases "0 < sint (MilliCPU (cprr p))")
    case True
    have "LargestCPU (fst (CalculatePodsRequestedUsage cprr pods'))
            = newResourceItem (MilliCPU (cprr p)) (Resource.Memory (cprr p))"
      using mem pend True uniq unfolding sets [symmetric] by (rule LargestCPU_unique_max)
    moreover have "LargestCPU (fst (CalculatePodsRequestedUsage cprr pods))
            = newResourceItem (MilliCPU (cprr p)) (Resource.Memory (cprr p))"
      using mem pend True uniq by (rule LargestCPU_unique_max)
    ultimately show ?thesis by simp
  next
    case False
    have le: "\<forall>q\<in>set pods. Phase (Pod.Status q) = PodPending \<longrightarrow> sint (MilliCPU (cprr q)) \<le> 0"
    proof (intro ballI impI)
      fix q assume q: "q \<in> set pods" "Phase (Pod.Status q) = PodPending"
      show "sint (MilliCPU (cprr q)) \<le> 0"
      proof (cases "q = p")
        case True then show ?thesis using False by simp
      next
        case False
        then have "sint (MilliCPU (cprr q)) < sint (MilliCPU (cprr p))"
          using uniq q by simp
        then show ?thesis using \<open>\<not> 0 < sint (MilliCPU (cprr p))\<close> by simp
      qed
    qed
    have "LargestCPU (fst (CalculatePodsRequestedUsage cprr pods')) = newEmptyResourceItem"
      using le unfolding sets [symmetric] by (rule LargestCPU_nonpositive)
    moreover have "LargestCPU (fst (CalculatePodsRequestedUsage cprr pods)) = newEmptyResourceItem"
      using le by (rule LargestCPU_nonpositive)
    ultimately show ?thesis by simp
  qed
qed


section \<open>Largest pending request\<close>

text \<open>
  C1 (amended). If a pod of the list is in phase Pending, its memory request is greater
  than zero and strictly greater than the memory request of every other Pending pod of the
  list, then LargestMemory is the full (CPU, Memory) pair of that pod. Independently, if
  a Pending pod \<open>pc\<close> has a CPU request greater than zero and strictly greater than that of
  every other Pending pod, then LargestCPU is the full pair of \<open>pc\<close>. Whenever some Pending
  pod has the strictly largest memory request (CPU request) among the Pending pods,
  LargestMemory (LargestCPU) is the same for every reordering of the list. When no Pending
  pod requests more than zero memory (CPU), LargestMemory (LargestCPU) is the zero pair.
\<close>

theorem largest_pending_unique_max:
  fixes pods pods' :: "'spec Pod list"
  shows
    "(pm \<in> set pods \<and> Phase (Pod.Status pm) = PodPending \<and>
      0 < sint (Resource.Memory (cprr pm)) \<and>
      (\<forall>q\<in>set pods. Phase (Pod.Status q) = PodPending \<and> q \<noteq> pm \<longrightarrow>
           sint (Resource.Memory (cprr q)) < sint (Resource.Memory (cprr pm)))
      \<longrightarrow> LargestMemory (fst (CalculatePodsRequestedUsage cprr pods))
            = newResourceItem (MilliCPU (cprr pm)) (Resource.Memory (cprr pm)))
   \<and> (pc \<in> set pods \<and> Phase (Pod.Status pc) = PodPending \<and>
      0 < sint (MilliCPU (cprr pc)) \<and>
      (\<forall>q\<in>set pods. Phase (Pod.Status q) = PodPending \<and> q \<noteq> pc \<longrightarrow>
           sint (MilliCPU (cprr q)) < sint (MilliCPU (cprr pc)))
      \<longrightarrow> LargestCPU (fst (CalculatePodsRequestedUsage cprr pods))
            = newResourceItem (MilliCPU (cprr pc)) (Resource.Memory (cprr pc)))
   \<and> (mset pods' = mset pods \<and> pm \<in> set pods \<and> Phase (Pod.Status pm) = PodPending \<and>
      (\<forall>q\<in>set pods. Phase (Pod.Status q) = PodPending \<and> q \<noteq> pm \<longrightarrow>
           sint (Resource.Memory (cprr q)) < sint (Resource.Memory (cprr pm)))
      \<longrightarrow> LargestMemory (fst (CalculatePodsRequestedUsage cprr pods'))
            = LargestMemory (fst (CalculatePodsRequestedUsage cprr pods)))
   \<and> (mset pods' = mset pods \<and> pc \<in> set pods \<and> Phase (Pod.Status pc) = PodPending \<and>
      (\<forall>q\<in>set pods. Phase (Pod.Status q) = PodPending \<and> q \<noteq> pc \<longrightarrow>
           sint (MilliCPU (cprr q)) < sint (MilliCPU (cprr pc)))
      \<longrightarrow> LargestCPU (fst (CalculatePodsRequestedUsage cprr pods'))
            = LargestCPU (fst (CalculatePodsRequestedUsage cprr pods)))
   \<and> ((\<forall>q\<in>set pods. Phase (Pod.Status q) = PodPending \<longrightarrow>
           sint (Resource.Memory (cprr q)) \<le> 0)
      \<longrightarrow> LargestMemory (fst (CalculatePodsRequestedUsage cprr pods)) = newEmptyResourceItem)
   \<and> ((\<forall>q\<in>set pods. Phase (Pod.Status q) = PodPending \<longrightarrow>
           sint (MilliCPU (cprr q)) \<le> 0)
      \<longrightarrow> LargestCPU (fst (CalculatePodsRequestedUsage cprr pods)) = newEmptyResourceItem)"
proof (intro conjI impI)
  assume "pm \<in> set pods \<and> Phase (Pod.Status pm) = PodPending \<and>
      0 < sint (Resource.Memory (cprr pm)) \<and>
      (\<forall>q\<in>set pods. Phase (Pod.Status q) = PodPending \<and> q \<noteq> pm \<longrightarrow>
           sint (Resource.Memory (cprr q)) < sint (Resource.Memory (cprr pm)))"
  then show "LargestMemory (fst (CalculatePodsRequestedUsage cprr pods))
            = newResourceItem (MilliCPU (cprr pm)) (Resource.Memory (cprr pm))"
    by (intro LargestMemory_unique_max) simp_all
next
  assume "pc \<in> set pods \<and> Phase (Pod.Status pc) = PodPending \<and>
      0 < sint (MilliCPU (cprr pc)) \<and>
      (\<forall>q\<in>set pods. Phase (Pod.Status q) = PodPending \<and> q \<noteq> pc \<longrightarrow>
           sint (MilliCPU (cprr q)) < sint (MilliCPU (cprr pc)))"
  then show "LargestCPU (fst (CalculatePodsRequestedUsage cprr pods))
            = newResourceItem (MilliCPU (cprr pc)) (Resource.Memory (cprr pc))"
    by (intro LargestCPU_unique_max) simp_all
next
  assume "mset pods' = mset pods \<and> pm \<in> set pods \<and> Phase (Pod.Status pm) = PodPending \<and>
      (\<forall>q\<in>set pods. Phase (Pod.Status q) = PodPending \<and> q \<noteq> pm \<longrightarrow>
           sint (Resource.Memory (cprr q)) < sint (Resource.Memory (cprr pm)))"
  then show "LargestMemory (fst (CalculatePodsRequestedUsage cprr pods'))
            = LargestMemory (fst (CalculatePodsRequestedUsage cprr pods))"
    by (intro LargestMemory_order_independent [where p = pm]) simp_all
next
  assume "mset pods' = mset pods \<and> pc \<in> set pods \<and> Phase (Pod.Status pc) = PodPending \<and>
      (\<forall>q\<in>set pods. Phase (Pod.Status q) = PodPending \<and> q \<noteq> pc \<longrightarrow>
           sint (MilliCPU (cprr q)) < sint (MilliCPU (cprr pc)))"
  then show "LargestCPU (fst (CalculatePodsRequestedUsage cprr pods'))
            = LargestCPU (fst (CalculatePodsRequestedUsage cprr pods))"
    by (intro LargestCPU_order_independent [where p = pc]) simp_all
next
  assume "\<forall>q\<in>set pods. Phase (Pod.Status q) = PodPending \<longrightarrow>
           sint (Resource.Memory (cprr q)) \<le> 0"
  then show "LargestMemory (fst (CalculatePodsRequestedUsage cprr pods)) = newEmptyResourceItem"
    by (rule LargestMemory_nonpositive)
next
  assume "\<forall>q\<in>set pods. Phase (Pod.Status q) = PodPending \<longrightarrow>
           sint (MilliCPU (cprr q)) \<le> 0"
  then show "LargestCPU (fst (CalculatePodsRequestedUsage cprr pods)) = newEmptyResourceItem"
    by (rule LargestCPU_nonpositive)
qed

text \<open>
  The spec's example: Pending pods with memory requests 100, 500 and 300 bytes. The pod
  requesting 500 bytes gives LargestMemory in both processing orders, and the pod with
  the largest CPU request gives LargestCPU. A single Pending pod that requests no memory
  leaves LargestMemory at the zero pair.
\<close>

theorem largest_pending_unique_max_witness:
  "LargestMemory (fst (CalculatePodsRequestedUsage Spec
      [examplePod PodPending [] [] 300 100, examplePod PodPending [] [] 20 500,
       examplePod PodPending [] [] 100 300])) = newResourceItem 20 500
   \<and> LargestCPU (fst (CalculatePodsRequestedUsage Spec
      [examplePod PodPending [] [] 300 100, examplePod PodPending [] [] 20 500,
       examplePod PodPending [] [] 100 300])) = newResourceItem 300 100
   \<and> LargestMemory (fst (CalculatePodsRequestedUsage Spec
      [examplePod PodPending [] [] 100 300, examplePod PodPending [] [] 20 500,
       examplePod PodPending [] [] 300 100]))
     = LargestMemory (fst (CalculatePodsRequestedUsage Spec
      [examplePod PodPending [] [] 300 100, examplePod PodPending [] [] 20 500,
       examplePod PodPending [] [] 100 300]))
   \<and> LargestCPU (fst (CalculatePodsRequestedUsage Spec
      [examplePod PodPending [] [] 100 300, examplePod PodPending [] [] 20 500,
       examplePod PodPending [] [] 300 100]))
     = LargestCPU (fst (CalculatePodsRequestedUsage Spec
      [examplePod PodPending [] [] 300 100, examplePod PodPending [] [] 20 500,
       examplePod PodPending [] [] 100 300]))
   \<and> LargestMemory (fst (CalculatePodsRequestedUsage Spec [examplePod PodPending [] [] 100 0]))
     = newEmptyResourceItem"
  using largest_pending_unique_max
    [where pods = "[examplePod PodPending [] [] 100 0]" and cprr = Spec,
      THEN conjunct2, THEN conjunct2, THEN conjunct2, THEN conjunct2, THEN conjunct1]
    largest_pending_unique_max
    [of "examplePod PodPending [] [] 20 500"
        "[examplePod PodPending [] [] 300 100, examplePod PodPending [] [] 20 500,
          examplePod PodPending [] [] 100 300]"
        Spec
        "examplePod PodPending [] [] 300 100"
        "[examplePod PodPending [] [] 100 300, examplePod PodPending [] [] 20 500,
          examplePod PodPending [] [] 300 100]"]
  by (simp add: examplePod_def add_mset_commute)

text \<open>
  Without the condition that the request is greater than zero the statement fails: a single
  Pending pod requesting 100 milli-CPU and no memory leaves LargestMemory at the zero
  pair, not at the pod's pair.
\<close>

theorem largest_memory_zero_request_counterexample:
  "Phase (Pod.Status (examplePod PodPending [] [] 100 0)) = PodPending
   \<and> LargestMemory (fst (CalculatePodsRequestedUsage Spec [examplePod PodPending [] [] 100 0]))
       = newEmptyResourceItem
   \<and> LargestMemory (fst (CalculatePodsRequestedUsage Spec [examplePod PodPending [] [] 100 0]))
       \<noteq> newResourceItem (MilliCPU (Spec (examplePod PodPending [] [] 100 0)))
            (Resource.Memory (Spec (examplePod PodPending [] [] 100 0)))"
  by (simp add: CalculatePodsRequestedUsage_def CalculatePodsRequestedUsage_body_def Let_def
      NewPodRequestedUsage_def newEmptyResourceItem_def newResourceItem_def examplePod_def
      Value_def NewCPUQuantity_def NewMemoryQuantity_def NewQuantity_def NewMilliQuantity_def)

section \<open>Total and the pods that are not Pending\<close>

lemma loop_Total:
  "PodRequestedUsage.Total (foldl (CalculatePodsRequestedUsage_body cprr) ret pods) =
     \<lparr>CPU = CPU (PodRequestedUsage.Total ret)
              + (\<Sum>pod\<leftarrow>pods. NewCPUQuantity (MilliCPU (cprr pod))),
      ResourceItem.Memory = ResourceItem.Memory (PodRequestedUsage.Total ret)
              + (\<Sum>pod\<leftarrow>pods. NewMemoryQuantity (Resource.Memory (cprr pod)))\<rparr>"
  by (induction pods arbitrary: ret) (simp_all add: body_Total add.assoc)

lemma NewPodRequestedUsage_Total:
  "PodRequestedUsage.Total NewPodRequestedUsage = \<lparr>CPU = 0, ResourceItem.Memory = 0\<rparr>"
  by (simp add: NewPodRequestedUsage_def newEmptyResourceItem_def NewCPUQuantity_def
      NewMemoryQuantity_def NewQuantity_def NewMilliQuantity_def)

lemma CalculatePodsRequestedUsage_Total:
  "PodRequestedUsage.Total (fst (CalculatePodsRequestedUsage cprr pods)) =
     \<lparr>CPU = (\<Sum>pod\<leftarrow>pods. NewCPUQuantity (MilliCPU (cprr pod))),
      ResourceItem.Memory = (\<Sum>pod\<leftarrow>pods. NewMemoryQuantity (Resource.Memory (cprr pod)))\<rparr>"
  by (simp add: fst_CalculatePodsRequestedUsage loop_Total NewPodRequestedUsage_Total)

lemma loop_LargestMemory_cong:
  "LargestMemory ret = LargestMemory ret' \<Longrightarrow>
   LargestMemory (foldl (CalculatePodsRequestedUsage_body cprr) ret pods)
     = LargestMemory (foldl (CalculatePodsRequestedUsage_body cprr) ret' pods)"
proof (induction pods arbitrary: ret ret')
  case Nil
  then show ?case by simp
next
  case (Cons q pods)
  have "LargestMemory (CalculatePodsRequestedUsage_body cprr ret q)
          = LargestMemory (CalculatePodsRequestedUsage_body cprr ret' q)"
    using Cons.prems by (simp add: body_LargestMemory)
  then have "LargestMemory (foldl (CalculatePodsRequestedUsage_body cprr)
                (CalculatePodsRequestedUsage_body cprr ret q) pods)
             = LargestMemory (foldl (CalculatePodsRequestedUsage_body cprr)
                (CalculatePodsRequestedUsage_body cprr ret' q) pods)"
    by (rule Cons.IH)
  then show ?case by simp
qed

lemma loop_LargestCPU_cong:
  "LargestCPU ret = LargestCPU ret' \<Longrightarrow>
   LargestCPU (foldl (CalculatePodsRequestedUsage_body cprr) ret pods)
     = LargestCPU (foldl (CalculatePodsRequestedUsage_body cprr) ret' pods)"
proof (induction pods arbitrary: ret ret')
  case Nil
  then show ?case by simp
next
  case (Cons q pods)
  have "LargestCPU (CalculatePodsRequestedUsage_body cprr ret q)
          = LargestCPU (CalculatePodsRequestedUsage_body cprr ret' q)"
    using Cons.prems by (simp add: body_LargestCPU)
  then have "LargestCPU (foldl (CalculatePodsRequestedUsage_body cprr)
                (CalculatePodsRequestedUsage_body cprr ret q) pods)
             = LargestCPU (foldl (CalculatePodsRequestedUsage_body cprr)
                (CalculatePodsRequestedUsage_body cprr ret' q) pods)"
    by (rule Cons.IH)
  then show ?case by simp
qed

lemma LargestMemory_skip_non_pending:
  assumes "Phase (Pod.Status p) \<noteq> PodPending"
  shows "LargestMemory (fst (CalculatePodsRequestedUsage cprr (xs @ p # ys)))
           = LargestMemory (fst (CalculatePodsRequestedUsage cprr (xs @ ys)))"
proof -
  let ?r = "foldl (CalculatePodsRequestedUsage_body cprr) NewPodRequestedUsage xs"
  have "LargestMemory (CalculatePodsRequestedUsage_body cprr ?r p) = LargestMemory ?r"
    using assms by (simp add: body_LargestMemory)
  then have "LargestMemory (foldl (CalculatePodsRequestedUsage_body cprr)
                 (CalculatePodsRequestedUsage_body cprr ?r p) ys)
             = LargestMemory (foldl (CalculatePodsRequestedUsage_body cprr) ?r ys)"
    by (rule loop_LargestMemory_cong)
  then show ?thesis by (simp add: fst_CalculatePodsRequestedUsage)
qed

lemma LargestCPU_skip_non_pending:
  assumes "Phase (Pod.Status p) \<noteq> PodPending"
  shows "LargestCPU (fst (CalculatePodsRequestedUsage cprr (xs @ p # ys)))
           = LargestCPU (fst (CalculatePodsRequestedUsage cprr (xs @ ys)))"
proof -
  let ?r = "foldl (CalculatePodsRequestedUsage_body cprr) NewPodRequestedUsage xs"
  have "LargestCPU (CalculatePodsRequestedUsage_body cprr ?r p) = LargestCPU ?r"
    using assms by (simp add: body_LargestCPU)
  then have "LargestCPU (foldl (CalculatePodsRequestedUsage_body cprr)
                 (CalculatePodsRequestedUsage_body cprr ?r p) ys)
             = LargestCPU (foldl (CalculatePodsRequestedUsage_body cprr) ?r ys)"
    by (rule loop_LargestCPU_cong)
  then show ?thesis by (simp add: fst_CalculatePodsRequestedUsage)
qed

lemma loop_LargestMemory_filter:
  "LargestMemory (foldl (CalculatePodsRequestedUsage_body cprr) ret pods)
     = LargestMemory (foldl (CalculatePodsRequestedUsage_body cprr) ret
          (filter (\<lambda>q. Phase (Pod.Status q) = PodPending) pods))"
proof (induction pods arbitrary: ret)
  case Nil
  then show ?case by simp
next
  case (Cons q pods)
  show ?case
  proof (cases "Phase (Pod.Status q) = PodPending")
    case True
    then show ?thesis by (simp add: Cons.IH)
  next
    case False
    then have "LargestMemory (CalculatePodsRequestedUsage_body cprr ret q) = LargestMemory ret"
      by (simp add: body_LargestMemory)
    then have "LargestMemory (foldl (CalculatePodsRequestedUsage_body cprr)
                  (CalculatePodsRequestedUsage_body cprr ret q) pods)
               = LargestMemory (foldl (CalculatePodsRequestedUsage_body cprr) ret pods)"
      by (rule loop_LargestMemory_cong)
    then show ?thesis using False by (simp add: Cons.IH)
  qed
qed

lemma loop_LargestCPU_filter:
  "LargestCPU (foldl (CalculatePodsRequestedUsage_body cprr) ret pods)
     = LargestCPU (foldl (CalculatePodsRequestedUsage_body cprr) ret
          (filter (\<lambda>q. Phase (Pod.Status q) = PodPending) pods))"
proof (induction pods arbitrary: ret)
  case Nil
  then show ?case by simp
next
  case (Cons q pods)
  show ?case
  proof (cases "Phase (Pod.Status q) = PodPending")
    case True
    then show ?thesis by (simp add: Cons.IH)
  next
    case False
    then have "LargestCPU (CalculatePodsRequestedUsage_body cprr ret q) = LargestCPU ret"
      by (simp add: body_LargestCPU)
    then have "LargestCPU (foldl (CalculatePodsRequestedUsage_body cprr)
                  (CalculatePodsRequestedUsage_body cprr ret q) pods)
               = LargestCPU (foldl (CalculatePodsRequestedUsage_body cprr) ret pods)"
      by (rule loop_LargestCPU_cong)
    then show ?thesis using False by (simp add: Cons.IH)
  qed
qed

text \<open>
  C5. A pod whose phase is not Pending (Running, for instance) adds its extracted request
  to Total and leaves LargestMemory and LargestCPU as they are without it, wherever it
  stands in the list and whatever it requests; LargestMemory and LargestCPU of any list
  are those of its Pending pods alone.
\<close>

theorem non_pending_only_in_total:
  fixes xs ys pods :: "'spec Pod list"
  shows
  "(Phase (Pod.Status p) \<noteq> PodPending \<longrightarrow>
      CPU (PodRequestedUsage.Total (fst (CalculatePodsRequestedUsage cprr (xs @ p # ys))))
        = CPU (PodRequestedUsage.Total (fst (CalculatePodsRequestedUsage cprr (xs @ ys))))
          + NewCPUQuantity (MilliCPU (cprr p))
      \<and> ResourceItem.Memory
          (PodRequestedUsage.Total (fst (CalculatePodsRequestedUsage cprr (xs @ p # ys))))
        = ResourceItem.Memory
            (PodRequestedUsage.Total (fst (CalculatePodsRequestedUsage cprr (xs @ ys))))
          + NewMemoryQuantity (Resource.Memory (cprr p))
      \<and> LargestMemory (fst (CalculatePodsRequestedUsage cprr (xs @ p # ys)))
        = LargestMemory (fst (CalculatePodsRequestedUsage cprr (xs @ ys)))
      \<and> LargestCPU (fst (CalculatePodsRequestedUsage cprr (xs @ p # ys)))
        = LargestCPU (fst (CalculatePodsRequestedUsage cprr (xs @ ys))))
   \<and> LargestMemory (fst (CalculatePodsRequestedUsage cprr pods))
        = LargestMemory (fst (CalculatePodsRequestedUsage cprr
            (filter (\<lambda>q. Phase (Pod.Status q) = PodPending) pods)))
   \<and> LargestCPU (fst (CalculatePodsRequestedUsage cprr pods))
        = LargestCPU (fst (CalculatePodsRequestedUsage cprr
            (filter (\<lambda>q. Phase (Pod.Status q) = PodPending) pods)))"
proof (intro conjI impI)
  show "CPU (PodRequestedUsage.Total (fst (CalculatePodsRequestedUsage cprr (xs @ p # ys))))
        = CPU (PodRequestedUsage.Total (fst (CalculatePodsRequestedUsage cprr (xs @ ys))))
          + NewCPUQuantity (MilliCPU (cprr p))"
    by (simp add: CalculatePodsRequestedUsage_Total)
  show "ResourceItem.Memory
          (PodRequestedUsage.Total (fst (CalculatePodsRequestedUsage cprr (xs @ p # ys))))
        = ResourceItem.Memory
            (PodRequestedUsage.Total (fst (CalculatePodsRequestedUsage cprr (xs @ ys))))
          + NewMemoryQuantity (Resource.Memory (cprr p))"
    by (simp add: CalculatePodsRequestedUsage_Total)
  show "LargestMemory (fst (CalculatePodsRequestedUsage cprr pods))
        = LargestMemory (fst (CalculatePodsRequestedUsage cprr
            (filter (\<lambda>q. Phase (Pod.Status q) = PodPending) pods)))"
    unfolding fst_CalculatePodsRequestedUsage by (rule loop_LargestMemory_filter)
  show "LargestCPU (fst (CalculatePodsRequestedUsage cprr pods))
        = LargestCPU (fst (CalculatePodsRequestedUsage cprr
            (filter (\<lambda>q. Phase (Pod.Status q) = PodPending) pods)))"
    unfolding fst_CalculatePodsRequestedUsage by (rule loop_LargestCPU_filter)
next
  assume "Phase (Pod.Status p) \<noteq> PodPending"
  then show "LargestMemory (fst (CalculatePodsRequestedUsage cprr (xs @ p # ys)))
        = LargestMemory (fst (CalculatePodsRequestedUsage cprr (xs @ ys)))"
    by (rule LargestMemory_skip_non_pending)
next
  assume "Phase (Pod.Status p) \<noteq> PodPending"
  then show "LargestCPU (fst (CalculatePodsRequestedUsage cprr (xs @ p # ys)))
        = LargestCPU (fst (CalculatePodsRequestedUsage cprr (xs @ ys)))"
    by (rule LargestCPU_skip_non_pending)
qed


text \<open>
  A Running pod requesting more CPU and more memory than both Pending pods: it is counted
  in Total and neither largest field is its pair.
\<close>

theorem non_pending_only_in_total_witness:
  "CPU (PodRequestedUsage.Total (fst (CalculatePodsRequestedUsage Spec
      [examplePod PodPending [] [] 300 100, examplePod PodRunning scheduledTrue ''n1'' 900 800,
       examplePod PodPending [] [] 20 500]))) = NewCPUQuantity 1220
   \<and> ResourceItem.Memory (PodRequestedUsage.Total (fst (CalculatePodsRequestedUsage Spec
      [examplePod PodPending [] [] 300 100, examplePod PodRunning scheduledTrue ''n1'' 900 800,
       examplePod PodPending [] [] 20 500]))) = NewMemoryQuantity 1400
   \<and> LargestMemory (fst (CalculatePodsRequestedUsage Spec
      [examplePod PodPending [] [] 300 100, examplePod PodRunning scheduledTrue ''n1'' 900 800,
       examplePod PodPending [] [] 20 500])) = newResourceItem 20 500
   \<and> LargestCPU (fst (CalculatePodsRequestedUsage Spec
      [examplePod PodPending [] [] 300 100, examplePod PodRunning scheduledTrue ''n1'' 900 800,
       examplePod PodPending [] [] 20 500])) = newResourceItem 300 100"
proof -
  let ?a = "examplePod PodPending [] [] 300 100"
  let ?r = "examplePod PodRunning scheduledTrue ''n1'' 900 800"
  let ?c = "examplePod PodPending [] [] 20 500"
  have running: "Phase (Pod.Status ?r) \<noteq> PodPending"
    by (simp add: examplePod_def PodRunning_def PodPending_def)
  have without: "fst (CalculatePodsRequestedUsage Spec [?a, ?c]) =
      \<lparr>PodRequestedUsage.Total =
         \<lparr>CPU = NewCPUQuantity 320, ResourceItem.Memory = NewMemoryQuantity 600\<rparr>,
       LargestMemory = newResourceItem 20 500, LargestCPU = newResourceItem 300 100\<rparr>"
    by (simp add: CalculatePodsRequestedUsage_def CalculatePodsRequestedUsage_body_def Let_def
      NewPodRequestedUsage_def newEmptyResourceItem_def newResourceItem_def examplePod_def
      Value_def MilliValue_def NewCPUQuantity_def NewMemoryQuantity_def NewQuantity_def
      NewMilliQuantity_def Add_def)
  have request: "NewCPUQuantity (MilliCPU (Spec ?r)) = NewCPUQuantity 900"
    "NewMemoryQuantity (Resource.Memory (Spec ?r)) = NewMemoryQuantity 800"
    by (simp_all add: examplePod_def)
  have sums: "NewCPUQuantity 320 + NewCPUQuantity 900 = NewCPUQuantity 1220"
    "NewMemoryQuantity 600 + NewMemoryQuantity 800 = NewMemoryQuantity 1400"
    by (simp_all add: NewCPUQuantity_def NewMemoryQuantity_def NewQuantity_def
        NewMilliQuantity_def)
  from non_pending_only_in_total [of ?r Spec "[?a]" "[?c]" "[]"] running
  show ?thesis
    by (simp only: append_Cons append_Nil without request sums
        PodRequestedUsage.simps ResourceItem.simps simp_thms)
qed

section \<open>Monotonicity of Total\<close>

lemma NewCPUQuantity_nonneg: "0 \<le> sint v \<Longrightarrow> 0 \<le> NewCPUQuantity v"
  by (simp add: NewCPUQuantity_def NewMilliQuantity_def)

lemma NewMemoryQuantity_nonneg: "0 \<le> sint v \<Longrightarrow> 0 \<le> NewMemoryQuantity v"
  by (simp add: NewMemoryQuantity_def NewQuantity_def)

text \<open>
  C8. If the extracted CPU and memory requests of a pod are non-negative, then appending
  the pod to the input list (or inserting it at any position) does not decrease Total.CPU
  or Total.Memory.
\<close>

theorem total_monotone:
  fixes pods xs ys :: "'spec Pod list"
  assumes "0 \<le> sint (MilliCPU (cprr p))" and "0 \<le> sint (Resource.Memory (cprr p))"
  shows "CPU (PodRequestedUsage.Total (fst (CalculatePodsRequestedUsage cprr pods)))
           \<le> CPU (PodRequestedUsage.Total (fst (CalculatePodsRequestedUsage cprr (pods @ [p]))))
    \<and> ResourceItem.Memory (PodRequestedUsage.Total (fst (CalculatePodsRequestedUsage cprr pods)))
           \<le> ResourceItem.Memory
                (PodRequestedUsage.Total (fst (CalculatePodsRequestedUsage cprr (pods @ [p]))))
    \<and> CPU (PodRequestedUsage.Total (fst (CalculatePodsRequestedUsage cprr (xs @ ys))))
           \<le> CPU (PodRequestedUsage.Total (fst (CalculatePodsRequestedUsage cprr (xs @ p # ys))))
    \<and> ResourceItem.Memory
            (PodRequestedUsage.Total (fst (CalculatePodsRequestedUsage cprr (xs @ ys))))
           \<le> ResourceItem.Memory
                (PodRequestedUsage.Total (fst (CalculatePodsRequestedUsage cprr (xs @ p # ys))))"
  using assms NewCPUQuantity_nonneg [of "MilliCPU (cprr p)"]
    NewMemoryQuantity_nonneg [of "Resource.Memory (cprr p)"]
  by (simp add: CalculatePodsRequestedUsage_Total)

text \<open>
  A Running pod requesting 20 milli-CPU and no memory, appended to a list of one pod.
\<close>

theorem total_monotone_witness:
  "CPU (PodRequestedUsage.Total (fst (CalculatePodsRequestedUsage Spec
       [examplePod PodPending [] [] 300 100])))
     \<le> CPU (PodRequestedUsage.Total (fst (CalculatePodsRequestedUsage Spec
       ([examplePod PodPending [] [] 300 100] @ [examplePod PodRunning [] [] 20 0]))))
   \<and> ResourceItem.Memory (PodRequestedUsage.Total (fst (CalculatePodsRequestedUsage Spec
       [examplePod PodPending [] [] 300 100])))
     \<le> ResourceItem.Memory (PodRequestedUsage.Total (fst (CalculatePodsRequestedUsage Spec
       ([examplePod PodPending [] [] 300 100] @ [examplePod PodRunning [] [] 20 0]))))"
proof -
  have nonneg: "0 \<le> sint (MilliCPU (Spec (examplePod PodRunning [] [] 20 0)))"
    "0 \<le> sint (Resource.Memory (Spec (examplePod PodRunning [] [] 20 0)))"
    by (simp_all add: examplePod_def)
  from total_monotone [where cprr = Spec and p = "examplePod PodRunning [] [] 20 0"
      and pods = "[examplePod PodPending [] [] 300 100]" and xs = "[]" and ys = "[]",
      OF nonneg]
  show ?thesis by blast
qed

section \<open>The loop of CalculateNodesCapacity\<close>

lemma fst_CalculateNodesCapacity:
  "fst (CalculateNodesCapacity cprr nodes pods)
     = foldl (CalculateNodesCapacity_body cprr (mapPods pods)) newNodeAvailableCapacity nodes"
  by (simp add: CalculateNodesCapacity_def Let_def)

lemma CalculateNodesCapacity_snoc:
  "fst (CalculateNodesCapacity cprr (nodes @ [node]) pods)
     = CalculateNodesCapacity_body cprr (mapPods pods)
         (fst (CalculateNodesCapacity cprr nodes pods)) node"
  by (simp add: fst_CalculateNodesCapacity)

lemma nodes_body_LargestAvailableCPU:
  "LargestAvailableCPU (CalculateNodesCapacity_body cprr mappedPods ret node) =
     (if sint (MilliValue (CPU (LargestAvailableCPU ret)))
           < sint (MilliValue (CPU (GetNodeAvailableResources cprr node mappedPods)))
      then \<lparr>CPU = Cpu (Allocatable (Node.Status node)),
            ResourceItem.Memory = Memory_of (Allocatable (Node.Status node))\<rparr>
      else LargestAvailableCPU ret)"
  by (simp add: CalculateNodesCapacity_body_def Let_def)

lemma nodes_body_LargestAvailableMemory:
  "LargestAvailableMemory (CalculateNodesCapacity_body cprr mappedPods ret node) =
     (if sint (Value (ResourceItem.Memory (LargestAvailableMemory ret)))
           < sint (Value (ResourceItem.Memory (GetNodeAvailableResources cprr node mappedPods)))
      then \<lparr>CPU = Cpu (Allocatable (Node.Status node)),
            ResourceItem.Memory = Memory_of (Allocatable (Node.Status node))\<rparr>
      else LargestAvailableMemory ret)"
  by (simp add: CalculateNodesCapacity_body_def Let_def)

lemma nodes_body_Total:
  "NodeAvailableCapacity.Total (CalculateNodesCapacity_body cprr mappedPods ret node) =
     \<lparr>CPU = CPU (NodeAvailableCapacity.Total ret) + Cpu (Allocatable (Node.Status node)),
      ResourceItem.Memory = ResourceItem.Memory (NodeAvailableCapacity.Total ret)
         + Memory_of (Allocatable (Node.Status node))\<rparr>"
  by (simp add: CalculateNodesCapacity_body_def Let_def Add_def)

lemma nodes_loop_Total:
  "NodeAvailableCapacity.Total (foldl (CalculateNodesCapacity_body cprr mappedPods) ret nodes) =
     \<lparr>CPU = CPU (NodeAvailableCapacity.Total ret)
              + (\<Sum>node\<leftarrow>nodes. Cpu (Allocatable (Node.Status node))),
      ResourceItem.Memory = ResourceItem.Memory (NodeAvailableCapacity.Total ret)
              + (\<Sum>node\<leftarrow>nodes. Memory_of (Allocatable (Node.Status node)))\<rparr>"
  by (induction nodes arbitrary: ret) (simp_all add: nodes_body_Total add.assoc)

lemma newNodeAvailableCapacity_Total:
  "NodeAvailableCapacity.Total newNodeAvailableCapacity = \<lparr>CPU = 0, ResourceItem.Memory = 0\<rparr>"
  by (simp add: newNodeAvailableCapacity_def newEmptyResourceItem_def NewCPUQuantity_def
      NewMemoryQuantity_def NewQuantity_def NewMilliQuantity_def)

lemma CalculateNodesCapacity_Total:
  "NodeAvailableCapacity.Total (fst (CalculateNodesCapacity cprr nodes pods)) =
     \<lparr>CPU = (\<Sum>node\<leftarrow>nodes. Cpu (Allocatable (Node.Status node))),
      ResourceItem.Memory = (\<Sum>node\<leftarrow>nodes. Memory_of (Allocatable (Node.Status node)))\<rparr>"
  by (simp add: fst_CalculateNodesCapacity nodes_loop_Total newNodeAvailableCapacity_Total)

section \<open>Ties\<close>

lemma nodes_loop_LargestAvailableCPU_keep:
  "\<forall>m\<in>set nodes. sint (MilliValue (CPU (GetNodeAvailableResources cprr m mappedPods)))
        \<le> sint (MilliValue (CPU (LargestAvailableCPU ret)))
   \<Longrightarrow> LargestAvailableCPU (foldl (CalculateNodesCapacity_body cprr mappedPods) ret nodes)
         = LargestAvailableCPU ret"
proof (induction nodes arbitrary: ret)
  case Nil
  then show ?case by simp
next
  case (Cons m nodes)
  have step: "LargestAvailableCPU (CalculateNodesCapacity_body cprr mappedPods ret m)
                = LargestAvailableCPU ret"
    using Cons.prems by (auto simp: nodes_body_LargestAvailableCPU)
  have "LargestAvailableCPU (foldl (CalculateNodesCapacity_body cprr mappedPods)
           (CalculateNodesCapacity_body cprr mappedPods ret m) nodes)
        = LargestAvailableCPU (CalculateNodesCapacity_body cprr mappedPods ret m)"
    using Cons.prems by (intro Cons.IH) (simp add: step)
  then show ?case by (simp add: step)
qed

lemma nodes_loop_LargestAvailableMemory_keep:
  "\<forall>m\<in>set nodes.
        sint (Value (ResourceItem.Memory (GetNodeAvailableResources cprr m mappedPods)))
        \<le> sint (Value (ResourceItem.Memory (LargestAvailableMemory ret)))
   \<Longrightarrow> LargestAvailableMemory (foldl (CalculateNodesCapacity_body cprr mappedPods) ret nodes)
         = LargestAvailableMemory ret"
proof (induction nodes arbitrary: ret)
  case Nil
  then show ?case by simp
next
  case (Cons m nodes)
  have step: "LargestAvailableMemory (CalculateNodesCapacity_body cprr mappedPods ret m)
                = LargestAvailableMemory ret"
    using Cons.prems by (auto simp: nodes_body_LargestAvailableMemory)
  have "LargestAvailableMemory (foldl (CalculateNodesCapacity_body cprr mappedPods)
           (CalculateNodesCapacity_body cprr mappedPods ret m) nodes)
        = LargestAvailableMemory (CalculateNodesCapacity_body cprr mappedPods ret m)"
    using Cons.prems by (intro Cons.IH) (simp add: step)
  then show ?case by (simp add: step)
qed

lemma CalculateNodesCapacity_split:
  "fst (CalculateNodesCapacity cprr (ns @ n # ms) pods)
     = foldl (CalculateNodesCapacity_body cprr (mapPods pods))
         (CalculateNodesCapacity_body cprr (mapPods pods)
            (fst (CalculateNodesCapacity cprr ns pods)) n) ms"
  by (simp add: fst_CalculateNodesCapacity)

lemma LargestAvailableCPU_first_stored:
  assumes stored: "sint (MilliValue (CPU (LargestAvailableCPU
                       (fst (CalculateNodesCapacity cprr ns pods)))))
                   < sint (MilliValue (CPU (GetNodeAvailableResources cprr n (mapPods pods))))"
    and later: "\<forall>m\<in>set ms.
                   sint (MilliValue (CPU (GetNodeAvailableResources cprr m (mapPods pods))))
                   \<le> sint (MilliValue (CPU (GetNodeAvailableResources cprr n (mapPods pods))))"
    and below: "sint (MilliValue (CPU (GetNodeAvailableResources cprr n (mapPods pods))))
                   \<le> sint (MilliValue (Cpu (Allocatable (Node.Status n))))"
  shows "LargestAvailableCPU (fst (CalculateNodesCapacity cprr (ns @ n # ms) pods))
           = \<lparr>CPU = Cpu (Allocatable (Node.Status n)),
              ResourceItem.Memory = Memory_of (Allocatable (Node.Status n))\<rparr>"
proof -
  let ?r = "CalculateNodesCapacity_body cprr (mapPods pods)
              (fst (CalculateNodesCapacity cprr ns pods)) n"
  have r: "LargestAvailableCPU ?r
             = \<lparr>CPU = Cpu (Allocatable (Node.Status n)),
                ResourceItem.Memory = Memory_of (Allocatable (Node.Status n))\<rparr>"
    using stored by (simp add: nodes_body_LargestAvailableCPU)
  have "\<forall>m\<in>set ms. sint (MilliValue (CPU (GetNodeAvailableResources cprr m (mapPods pods))))
          \<le> sint (MilliValue (CPU (LargestAvailableCPU ?r)))"
  proof
    fix m assume "m \<in> set ms"
    then have "sint (MilliValue (CPU (GetNodeAvailableResources cprr m (mapPods pods))))
        \<le> sint (MilliValue (CPU (GetNodeAvailableResources cprr n (mapPods pods))))"
      using later by simp
    also note below
    finally show "sint (MilliValue (CPU (GetNodeAvailableResources cprr m (mapPods pods))))
          \<le> sint (MilliValue (CPU (LargestAvailableCPU ?r)))"
      by (simp add: r)
  qed
  then have "LargestAvailableCPU (foldl (CalculateNodesCapacity_body cprr (mapPods pods)) ?r ms)
               = LargestAvailableCPU ?r"
    by (rule nodes_loop_LargestAvailableCPU_keep)
  then show ?thesis by (simp add: CalculateNodesCapacity_split r)
qed

lemma LargestAvailableMemory_first_stored:
  assumes stored: "sint (Value (ResourceItem.Memory (LargestAvailableMemory
                       (fst (CalculateNodesCapacity cprr ns pods)))))
                   < sint (Value (ResourceItem.Memory
                       (GetNodeAvailableResources cprr n (mapPods pods))))"
    and later: "\<forall>m\<in>set ms.
                   sint (Value (ResourceItem.Memory
                       (GetNodeAvailableResources cprr m (mapPods pods))))
                   \<le> sint (Value (ResourceItem.Memory
                       (GetNodeAvailableResources cprr n (mapPods pods))))"
    and below: "sint (Value (ResourceItem.Memory
                       (GetNodeAvailableResources cprr n (mapPods pods))))
                   \<le> sint (Value (Memory_of (Allocatable (Node.Status n))))"
  shows "LargestAvailableMemory (fst (CalculateNodesCapacity cprr (ns @ n # ms) pods))
           = \<lparr>CPU = Cpu (Allocatable (Node.Status n)),
              ResourceItem.Memory = Memory_of (Allocatable (Node.Status n))\<rparr>"
proof -
  let ?r = "CalculateNodesCapacity_body cprr (mapPods pods)
              (fst (CalculateNodesCapacity cprr ns pods)) n"
  have r: "LargestAvailableMemory ?r
             = \<lparr>CPU = Cpu (Allocatable (Node.Status n)),
                ResourceItem.Memory = Memory_of (Allocatable (Node.Status n))\<rparr>"
    using stored by (simp add: nodes_body_LargestAvailableMemory)
  have "\<forall>m\<in>set ms.
          sint (Value (ResourceItem.Memory (GetNodeAvailableResources cprr m (mapPods pods))))
          \<le> sint (Value (ResourceItem.Memory (LargestAvailableMemory ?r)))"
  proof
    fix m assume "m \<in> set ms"
    then have "sint (Value (ResourceItem.Memory
            (GetNodeAvailableResources cprr m (mapPods pods))))
        \<le> sint (Value (ResourceItem.Memory
            (GetNodeAvailableResources cprr n (mapPods pods))))"
      using later by simp
    also note below
    finally show "sint (Value (ResourceItem.Memory
            (GetNodeAvailableResources cprr m (mapPods pods))))
          \<le> sint (Value (ResourceItem.Memory (LargestAvailableMemory ?r)))"
      by (simp add: r)
  qed
  then have "LargestAvailableMemory
                (foldl (CalculateNodesCapacity_body cprr (mapPods pods)) ?r ms)
               = LargestAvailableMemory ?r"
    by (rule nodes_loop_LargestAvailableMemory_keep)
  then show ?thesis by (simp add: CalculateNodesCapacity_split r)
qed

text \<open>
  C6 (amended). Both comparisons of each loop are strict, so an equal value never
  replaces the held one. In \<^verbatim>\<open>CalculatePodsRequestedUsage\<close>: when the largest memory
  request among the Pending pods is greater than zero, LargestMemory is the pair of the
  first Pending pod in input order that has it, whatever Pending pods with the same request
  follow; likewise LargestCPU by CPU request. In \<^verbatim>\<open>CalculateNodesCapacity\<close> a node is
  stored when it is reached if its available CPU is strictly greater than the CPU of the
  pair held after the nodes before it. A node that is stored, whose available CPU is not
  above its own allocatable CPU and is not exceeded by the available CPU of any later
  node, stays LargestAvailableCPU with its allocatable pair, whatever later nodes have the
  same available CPU; likewise LargestAvailableMemory by memory.
\<close>

theorem ties_keep_first:
  fixes xs ys xs' ys' pods :: "'spec Pod list"
  shows
    "(Phase (Pod.Status p) = PodPending \<and> 0 < sint (Resource.Memory (cprr p)) \<and>
      (\<forall>q\<in>set xs. Phase (Pod.Status q) = PodPending \<longrightarrow>
           sint (Resource.Memory (cprr q)) < sint (Resource.Memory (cprr p))) \<and>
      (\<forall>q\<in>set ys. Phase (Pod.Status q) = PodPending \<longrightarrow>
           sint (Resource.Memory (cprr q)) \<le> sint (Resource.Memory (cprr p)))
      \<longrightarrow> LargestMemory (fst (CalculatePodsRequestedUsage cprr (xs @ p # ys)))
            = newResourceItem (MilliCPU (cprr p)) (Resource.Memory (cprr p)))
   \<and> (Phase (Pod.Status p') = PodPending \<and> 0 < sint (MilliCPU (cprr p')) \<and>
      (\<forall>q\<in>set xs'. Phase (Pod.Status q) = PodPending \<longrightarrow>
           sint (MilliCPU (cprr q)) < sint (MilliCPU (cprr p'))) \<and>
      (\<forall>q\<in>set ys'. Phase (Pod.Status q) = PodPending \<longrightarrow>
           sint (MilliCPU (cprr q)) \<le> sint (MilliCPU (cprr p')))
      \<longrightarrow> LargestCPU (fst (CalculatePodsRequestedUsage cprr (xs' @ p' # ys')))
            = newResourceItem (MilliCPU (cprr p')) (Resource.Memory (cprr p')))
   \<and> (sint (MilliValue (CPU (LargestAvailableCPU
              (fst (CalculateNodesCapacity cprr ns pods)))))
        < sint (MilliValue (CPU (GetNodeAvailableResources cprr n (mapPods pods)))) \<and>
      (\<forall>m\<in>set ms.
          sint (MilliValue (CPU (GetNodeAvailableResources cprr m (mapPods pods))))
          \<le> sint (MilliValue (CPU (GetNodeAvailableResources cprr n (mapPods pods))))) \<and>
      sint (MilliValue (CPU (GetNodeAvailableResources cprr n (mapPods pods))))
        \<le> sint (MilliValue (Cpu (Allocatable (Node.Status n))))
      \<longrightarrow> LargestAvailableCPU (fst (CalculateNodesCapacity cprr (ns @ n # ms) pods))
            = \<lparr>CPU = Cpu (Allocatable (Node.Status n)),
               ResourceItem.Memory = Memory_of (Allocatable (Node.Status n))\<rparr>)
   \<and> (sint (Value (ResourceItem.Memory (LargestAvailableMemory
              (fst (CalculateNodesCapacity cprr ns' pods)))))
        < sint (Value (ResourceItem.Memory
              (GetNodeAvailableResources cprr n' (mapPods pods)))) \<and>
      (\<forall>m\<in>set ms'.
          sint (Value (ResourceItem.Memory (GetNodeAvailableResources cprr m (mapPods pods))))
          \<le> sint (Value (ResourceItem.Memory
                (GetNodeAvailableResources cprr n' (mapPods pods))))) \<and>
      sint (Value (ResourceItem.Memory (GetNodeAvailableResources cprr n' (mapPods pods))))
        \<le> sint (Value (Memory_of (Allocatable (Node.Status n'))))
      \<longrightarrow> LargestAvailableMemory (fst (CalculateNodesCapacity cprr (ns' @ n' # ms') pods))
            = \<lparr>CPU = Cpu (Allocatable (Node.Status n')),
               ResourceItem.Memory = Memory_of (Allocatable (Node.Status n'))\<rparr>)"
proof (intro conjI impI)
  assume h: "Phase (Pod.Status p) = PodPending \<and> 0 < sint (Resource.Memory (cprr p)) \<and>
      (\<forall>q\<in>set xs. Phase (Pod.Status q) = PodPending \<longrightarrow>
           sint (Resource.Memory (cprr q)) < sint (Resource.Memory (cprr p))) \<and>
      (\<forall>q\<in>set ys. Phase (Pod.Status q) = PodPending \<longrightarrow>
           sint (Resource.Memory (cprr q)) \<le> sint (Resource.Memory (cprr p)))"
  then have "sint (Value (ResourceItem.Memory (LargestMemory NewPodRequestedUsage)))
                < sint (Resource.Memory (cprr p))"
    by (simp add: NewPodRequestedUsage_LargestMemory Value_newEmptyResourceItem)
  with h show "LargestMemory (fst (CalculatePodsRequestedUsage cprr (xs @ p # ys)))
            = newResourceItem (MilliCPU (cprr p)) (Resource.Memory (cprr p))"
    unfolding fst_CalculatePodsRequestedUsage
    by (intro loop_LargestMemory_first_max) simp_all
next
  assume h: "Phase (Pod.Status p') = PodPending \<and> 0 < sint (MilliCPU (cprr p')) \<and>
      (\<forall>q\<in>set xs'. Phase (Pod.Status q) = PodPending \<longrightarrow>
           sint (MilliCPU (cprr q)) < sint (MilliCPU (cprr p'))) \<and>
      (\<forall>q\<in>set ys'. Phase (Pod.Status q) = PodPending \<longrightarrow>
           sint (MilliCPU (cprr q)) \<le> sint (MilliCPU (cprr p')))"
  then have "sint (MilliValue (CPU (LargestCPU NewPodRequestedUsage)))
                < sint (MilliCPU (cprr p'))"
    by (simp add: NewPodRequestedUsage_LargestCPU MilliValue_newEmptyResourceItem)
  with h show "LargestCPU (fst (CalculatePodsRequestedUsage cprr (xs' @ p' # ys')))
            = newResourceItem (MilliCPU (cprr p')) (Resource.Memory (cprr p'))"
    unfolding fst_CalculatePodsRequestedUsage
    by (intro loop_LargestCPU_first_max) simp_all
next
  assume "sint (MilliValue (CPU (LargestAvailableCPU
              (fst (CalculateNodesCapacity cprr ns pods)))))
        < sint (MilliValue (CPU (GetNodeAvailableResources cprr n (mapPods pods)))) \<and>
      (\<forall>m\<in>set ms.
          sint (MilliValue (CPU (GetNodeAvailableResources cprr m (mapPods pods))))
          \<le> sint (MilliValue (CPU (GetNodeAvailableResources cprr n (mapPods pods))))) \<and>
      sint (MilliValue (CPU (GetNodeAvailableResources cprr n (mapPods pods))))
        \<le> sint (MilliValue (Cpu (Allocatable (Node.Status n))))"
  then show "LargestAvailableCPU (fst (CalculateNodesCapacity cprr (ns @ n # ms) pods))
            = \<lparr>CPU = Cpu (Allocatable (Node.Status n)),
               ResourceItem.Memory = Memory_of (Allocatable (Node.Status n))\<rparr>"
    by (intro LargestAvailableCPU_first_stored) simp_all
next
  assume "sint (Value (ResourceItem.Memory (LargestAvailableMemory
              (fst (CalculateNodesCapacity cprr ns' pods)))))
        < sint (Value (ResourceItem.Memory
              (GetNodeAvailableResources cprr n' (mapPods pods)))) \<and>
      (\<forall>m\<in>set ms'.
          sint (Value (ResourceItem.Memory (GetNodeAvailableResources cprr m (mapPods pods))))
          \<le> sint (Value (ResourceItem.Memory
                (GetNodeAvailableResources cprr n' (mapPods pods))))) \<and>
      sint (Value (ResourceItem.Memory (GetNodeAvailableResources cprr n' (mapPods pods))))
        \<le> sint (Value (Memory_of (Allocatable (Node.Status n'))))"
  then show "LargestAvailableMemory (fst (CalculateNodesCapacity cprr (ns' @ n' # ms') pods))
            = \<lparr>CPU = Cpu (Allocatable (Node.Status n')),
               ResourceItem.Memory = Memory_of (Allocatable (Node.Status n'))\<rparr>"
    by (intro LargestAvailableMemory_first_stored) simp_all
qed

text \<open>
  Two Pending pods tie at 500 bytes and two at 9 milli-CPU: the first of each pair is
  held. Of three nodes, the second (3000 milli-CPU and 3000 bytes allocatable, a pod
  requesting 1000 and 1000) and the third (2000 and 2000 allocatable, no pod) tie at 2000
  available; the second is stored when it is reached and stays in both fields.
\<close>

theorem ties_keep_first_witness:
  "LargestMemory (fst (CalculatePodsRequestedUsage Spec
      ([examplePod PodPending [] [] 1 100] @ examplePod PodPending [] [] 9 500 #
       [examplePod PodPending [] [] 3 500, examplePod PodPending [] [] 9 200])))
     = newResourceItem 9 500
   \<and> LargestCPU (fst (CalculatePodsRequestedUsage Spec
      ([examplePod PodPending [] [] 1 100] @ examplePod PodPending [] [] 9 500 #
       [examplePod PodPending [] [] 3 500, examplePod PodPending [] [] 9 200])))
     = newResourceItem 9 500
   \<and> GetNodeAvailableResources Spec (exampleNode ''b'' 3000 3000)
        (mapPods [examplePod PodRunning scheduledTrue ''b'' 1000 1000])
     = newResourceItem 2000 2000
   \<and> GetNodeAvailableResources Spec (exampleNode ''c'' 2000 2000)
        (mapPods [examplePod PodRunning scheduledTrue ''b'' 1000 1000])
     = newResourceItem 2000 2000
   \<and> LargestAvailableCPU (fst (CalculateNodesCapacity Spec
      ([exampleNode ''a'' 1000 1000] @ exampleNode ''b'' 3000 3000 #
       [exampleNode ''c'' 2000 2000])
      [examplePod PodRunning scheduledTrue ''b'' 1000 1000]))
     = newResourceItem 3000 3000
   \<and> LargestAvailableMemory (fst (CalculateNodesCapacity Spec
      ([exampleNode ''a'' 1000 1000] @ exampleNode ''b'' 3000 3000 #
       [exampleNode ''c'' 2000 2000])
      [examplePod PodRunning scheduledTrue ''b'' 1000 1000]))
     = newResourceItem 3000 3000"
proof -
  let ?x = "examplePod PodPending [] [] 1 100"
  let ?p = "examplePod PodPending [] [] 9 500"
  let ?ys = "[examplePod PodPending [] [] 3 500, examplePod PodPending [] [] 9 200]"
  have pods_mem: "Phase (Pod.Status ?p) = PodPending \<and> 0 < sint (Resource.Memory (Spec ?p)) \<and>
      (\<forall>q\<in>set [?x]. Phase (Pod.Status q) = PodPending \<longrightarrow>
           sint (Resource.Memory (Spec q)) < sint (Resource.Memory (Spec ?p))) \<and>
      (\<forall>q\<in>set ?ys. Phase (Pod.Status q) = PodPending \<longrightarrow>
           sint (Resource.Memory (Spec q)) \<le> sint (Resource.Memory (Spec ?p)))"
    by (simp add: examplePod_def)
  have pods_cpu: "Phase (Pod.Status ?p) = PodPending \<and> 0 < sint (MilliCPU (Spec ?p)) \<and>
      (\<forall>q\<in>set [?x]. Phase (Pod.Status q) = PodPending \<longrightarrow>
           sint (MilliCPU (Spec q)) < sint (MilliCPU (Spec ?p))) \<and>
      (\<forall>q\<in>set ?ys. Phase (Pod.Status q) = PodPending \<longrightarrow>
           sint (MilliCPU (Spec q)) \<le> sint (MilliCPU (Spec ?p)))"
    by (simp add: examplePod_def)
  have request: "MilliCPU (Spec ?p) = 9" "Resource.Memory (Spec ?p) = 500"
    by (simp_all add: examplePod_def)
  let ?a = "exampleNode ''a'' 1000 1000"
  let ?b = "exampleNode ''b'' 3000 3000"
  let ?c = "exampleNode ''c'' 2000 2000"
  let ?np = "[examplePod PodRunning scheduledTrue ''b'' 1000 1000]"
  have held: "fst (CalculateNodesCapacity Spec [?a] ?np) =
      \<lparr>NodeAvailableCapacity.Total = newResourceItem 1000 1000,
       LargestAvailableMemory = newResourceItem 1000 1000,
       LargestAvailableCPU = newResourceItem 1000 1000\<rparr>"
    by (simp add: CalculateNodesCapacity_def CalculateNodesCapacity_body_def Let_def
        GetNodeAvailableResources_def sumByFunc_def mapPods_def mapPods_body_def
        isPodUsingNodeResources_def isPodScheduled_def scheduledTrue_def
        exampleNode_def examplePod_def
        newNodeAvailableCapacity_def newEmptyResourceItem_def newResourceItem_def
        Cpu_def Memory_of_def ResourceCPU_def ResourceMemory_def Add_def
        Value_NewMemoryQuantity MilliValue_NewCPUQuantity)
       (simp add: NewCPUQuantity_def NewMemoryQuantity_def NewQuantity_def NewMilliQuantity_def)
  have avail_b: "GetNodeAvailableResources Spec ?b (mapPods ?np) = newResourceItem 2000 2000"
    by (simp add: CalculateNodesCapacity_def CalculateNodesCapacity_body_def Let_def
        GetNodeAvailableResources_def sumByFunc_def mapPods_def mapPods_body_def
        isPodUsingNodeResources_def isPodScheduled_def scheduledTrue_def
        exampleNode_def examplePod_def
        newNodeAvailableCapacity_def newEmptyResourceItem_def newResourceItem_def
        Cpu_def Memory_of_def ResourceCPU_def ResourceMemory_def Add_def
        Value_NewMemoryQuantity MilliValue_NewCPUQuantity)
  have avail_c: "GetNodeAvailableResources Spec ?c (mapPods ?np) = newResourceItem 2000 2000"
    by (simp add: CalculateNodesCapacity_def CalculateNodesCapacity_body_def Let_def
        GetNodeAvailableResources_def sumByFunc_def mapPods_def mapPods_body_def
        isPodUsingNodeResources_def isPodScheduled_def scheduledTrue_def
        exampleNode_def examplePod_def
        newNodeAvailableCapacity_def newEmptyResourceItem_def newResourceItem_def
        Cpu_def Memory_of_def ResourceCPU_def ResourceMemory_def Add_def
        Value_NewMemoryQuantity MilliValue_NewCPUQuantity)
  have alloc_b: "Cpu (Allocatable (Node.Status ?b)) = NewCPUQuantity 3000"
    "Memory_of (Allocatable (Node.Status ?b)) = NewMemoryQuantity 3000"
    by (simp_all add: exampleNode_def Cpu_def Memory_of_def ResourceCPU_def ResourceMemory_def)
  have node_cpu: "sint (MilliValue (CPU (LargestAvailableCPU
              (fst (CalculateNodesCapacity Spec [?a] ?np)))))
        < sint (MilliValue (CPU (GetNodeAvailableResources Spec ?b (mapPods ?np)))) \<and>
      (\<forall>m\<in>set [?c].
          sint (MilliValue (CPU (GetNodeAvailableResources Spec m (mapPods ?np))))
          \<le> sint (MilliValue (CPU (GetNodeAvailableResources Spec ?b (mapPods ?np))))) \<and>
      sint (MilliValue (CPU (GetNodeAvailableResources Spec ?b (mapPods ?np))))
        \<le> sint (MilliValue (Cpu (Allocatable (Node.Status ?b))))"
    by (simp add: held avail_b avail_c alloc_b MilliValue_newResourceItem
        MilliValue_NewCPUQuantity)
  have node_mem: "sint (Value (ResourceItem.Memory (LargestAvailableMemory
              (fst (CalculateNodesCapacity Spec [?a] ?np)))))
        < sint (Value (ResourceItem.Memory
              (GetNodeAvailableResources Spec ?b (mapPods ?np)))) \<and>
      (\<forall>m\<in>set [?c].
          sint (Value (ResourceItem.Memory (GetNodeAvailableResources Spec m (mapPods ?np))))
          \<le> sint (Value (ResourceItem.Memory
                (GetNodeAvailableResources Spec ?b (mapPods ?np))))) \<and>
      sint (Value (ResourceItem.Memory (GetNodeAvailableResources Spec ?b (mapPods ?np))))
        \<le> sint (Value (Memory_of (Allocatable (Node.Status ?b))))"
    by (simp add: held avail_b avail_c alloc_b Value_newResourceItem Value_NewMemoryQuantity)
  have pair_b: "\<lparr>CPU = NewCPUQuantity 3000, ResourceItem.Memory = NewMemoryQuantity 3000\<rparr>
      = newResourceItem 3000 3000"
    by (simp add: newResourceItem_def)
  note inst = ties_keep_first [where cprr = Spec and p = ?p and xs = "[?x]" and ys = ?ys
      and p' = ?p and xs' = "[?x]" and ys' = ?ys
      and n = ?b and ns = "[?a]" and ms = "[?c]"
      and n' = ?b and ns' = "[?a]" and ms' = "[?c]" and pods = ?np]
  have "LargestMemory (fst (CalculatePodsRequestedUsage Spec ([?x] @ ?p # ?ys)))
          = newResourceItem (MilliCPU (Spec ?p)) (Resource.Memory (Spec ?p))"
    by (rule inst [THEN conjunct1, THEN mp, OF pods_mem])
  moreover have "LargestCPU (fst (CalculatePodsRequestedUsage Spec ([?x] @ ?p # ?ys)))
          = newResourceItem (MilliCPU (Spec ?p)) (Resource.Memory (Spec ?p))"
    by (rule inst [THEN conjunct2, THEN conjunct1, THEN mp, OF pods_cpu])
  moreover have "LargestAvailableCPU (fst (CalculateNodesCapacity Spec ([?a] @ ?b # [?c]) ?np))
        = \<lparr>CPU = Cpu (Allocatable (Node.Status ?b)),
           ResourceItem.Memory = Memory_of (Allocatable (Node.Status ?b))\<rparr>"
    by (rule inst [THEN conjunct2, THEN conjunct2, THEN conjunct1, THEN mp, OF node_cpu])
  moreover have "LargestAvailableMemory
          (fst (CalculateNodesCapacity Spec ([?a] @ ?b # [?c]) ?np))
        = \<lparr>CPU = Cpu (Allocatable (Node.Status ?b)),
           ResourceItem.Memory = Memory_of (Allocatable (Node.Status ?b))\<rparr>"
    by (rule inst [THEN conjunct2, THEN conjunct2, THEN conjunct2, THEN mp, OF node_mem])
  ultimately show ?thesis
    by (simp only: request avail_b avail_c alloc_b pair_b simp_thms)
qed

text \<open>
  Without these conditions the statement fails. Of two Pending pods that both request no
  memory, the first is not held as LargestMemory (the field stays at the zero pair). Of
  three nodes, the first has 2000 milli-CPU and 4000 bytes allocatable and 1 and 1
  available, the second and the third have 1900 and 3900 allocatable and available: the
  last two tie at the largest available CPU and memory, and neither is stored, since 1900
  is not greater than the held allocatable 2000 (3900 than 4000). Of two nodes with 10
  milli-CPU and 10 bytes available each, the first with 5 and 5 allocatable (its pod
  requests -5 and -5): the first is stored and the second replaces it, since 10 is
  greater than the held allocatable 5.
\<close>

theorem ties_first_not_held_counterexample:
  "Phase (Pod.Status (examplePod PodPending [] [] 5 0)) = PodPending
   \<and> Phase (Pod.Status (examplePod PodPending [] [] 7 0)) = PodPending
   \<and> Resource.Memory (Spec (examplePod PodPending [] [] 5 0))
       = Resource.Memory (Spec (examplePod PodPending [] [] 7 0))
   \<and> LargestMemory (fst (CalculatePodsRequestedUsage Spec
         [examplePod PodPending [] [] 5 0, examplePod PodPending [] [] 7 0]))
       = newEmptyResourceItem
   \<and> LargestMemory (fst (CalculatePodsRequestedUsage Spec
         [examplePod PodPending [] [] 5 0, examplePod PodPending [] [] 7 0]))
       \<noteq> newResourceItem (MilliCPU (Spec (examplePod PodPending [] [] 5 0)))
            (Resource.Memory (Spec (examplePod PodPending [] [] 5 0)))
   \<and> GetNodeAvailableResources Spec (exampleNode ''a'' 2000 4000)
        (mapPods [examplePod PodRunning scheduledTrue ''a'' 1999 3999])
       = newResourceItem 1 1
   \<and> GetNodeAvailableResources Spec (exampleNode ''b'' 1900 3900)
        (mapPods [examplePod PodRunning scheduledTrue ''a'' 1999 3999])
       = newResourceItem 1900 3900
   \<and> GetNodeAvailableResources Spec (exampleNode ''c'' 1900 3900)
        (mapPods [examplePod PodRunning scheduledTrue ''a'' 1999 3999])
       = newResourceItem 1900 3900
   \<and> LargestAvailableCPU (fst (CalculateNodesCapacity Spec
         [exampleNode ''a'' 2000 4000, exampleNode ''b'' 1900 3900, exampleNode ''c'' 1900 3900]
         [examplePod PodRunning scheduledTrue ''a'' 1999 3999]))
       = newResourceItem 2000 4000
   \<and> LargestAvailableMemory (fst (CalculateNodesCapacity Spec
         [exampleNode ''a'' 2000 4000, exampleNode ''b'' 1900 3900, exampleNode ''c'' 1900 3900]
         [examplePod PodRunning scheduledTrue ''a'' 1999 3999]))
       = newResourceItem 2000 4000
   \<and> newResourceItem 2000 4000 \<noteq> newResourceItem 1900 3900
   \<and> GetNodeAvailableResources Spec (exampleNode ''n'' 5 5)
        (mapPods [examplePod PodRunning scheduledTrue ''n'' (- 5) (- 5)])
       = newResourceItem 10 10
   \<and> GetNodeAvailableResources Spec (exampleNode ''m'' 10 10)
        (mapPods [examplePod PodRunning scheduledTrue ''n'' (- 5) (- 5)])
       = newResourceItem 10 10
   \<and> LargestAvailableCPU (fst (CalculateNodesCapacity Spec
         [exampleNode ''n'' 5 5, exampleNode ''m'' 10 10]
         [examplePod PodRunning scheduledTrue ''n'' (- 5) (- 5)]))
       = newResourceItem 10 10
   \<and> LargestAvailableMemory (fst (CalculateNodesCapacity Spec
         [exampleNode ''n'' 5 5, exampleNode ''m'' 10 10]
         [examplePod PodRunning scheduledTrue ''n'' (- 5) (- 5)]))
       = newResourceItem 10 10
   \<and> newResourceItem 10 10 \<noteq> newResourceItem 5 5"
proof -
  have pods: "Phase (Pod.Status (examplePod PodPending [] [] 5 0)) = PodPending
   \<and> Phase (Pod.Status (examplePod PodPending [] [] 7 0)) = PodPending
   \<and> Resource.Memory (Spec (examplePod PodPending [] [] 5 0))
       = Resource.Memory (Spec (examplePod PodPending [] [] 7 0))
   \<and> LargestMemory (fst (CalculatePodsRequestedUsage Spec
         [examplePod PodPending [] [] 5 0, examplePod PodPending [] [] 7 0]))
       = newEmptyResourceItem
   \<and> LargestMemory (fst (CalculatePodsRequestedUsage Spec
         [examplePod PodPending [] [] 5 0, examplePod PodPending [] [] 7 0]))
       \<noteq> newResourceItem (MilliCPU (Spec (examplePod PodPending [] [] 5 0)))
            (Resource.Memory (Spec (examplePod PodPending [] [] 5 0)))"
    by (simp add: CalculatePodsRequestedUsage_def CalculatePodsRequestedUsage_body_def Let_def
      NewPodRequestedUsage_def newEmptyResourceItem_def newResourceItem_def examplePod_def
      Value_def NewCPUQuantity_def NewMemoryQuantity_def NewQuantity_def NewMilliQuantity_def)
  let ?pa = "[examplePod PodRunning scheduledTrue ''a'' 1999 3999]"
  let ?pn = "[examplePod PodRunning scheduledTrue ''n'' (- 5) (- 5)]"
  have avail: "GetNodeAvailableResources Spec (exampleNode ''a'' 2000 4000) (mapPods ?pa)
       = newResourceItem 1 1"
    "GetNodeAvailableResources Spec (exampleNode ''b'' 1900 3900) (mapPods ?pa)
       = newResourceItem 1900 3900"
    "GetNodeAvailableResources Spec (exampleNode ''c'' 1900 3900) (mapPods ?pa)
       = newResourceItem 1900 3900"
    "GetNodeAvailableResources Spec (exampleNode ''n'' 5 5) (mapPods ?pn)
       = newResourceItem 10 10"
    "GetNodeAvailableResources Spec (exampleNode ''m'' 10 10) (mapPods ?pn)
       = newResourceItem 10 10"
    by (simp_all add: CalculateNodesCapacity_def CalculateNodesCapacity_body_def Let_def
        GetNodeAvailableResources_def sumByFunc_def mapPods_def mapPods_body_def
        isPodUsingNodeResources_def isPodScheduled_def scheduledTrue_def
        exampleNode_def examplePod_def
        newNodeAvailableCapacity_def newEmptyResourceItem_def newResourceItem_def
        Cpu_def Memory_of_def ResourceCPU_def ResourceMemory_def Add_def
        Value_NewMemoryQuantity MilliValue_NewCPUQuantity)
  have alloc: "\<And>name cpu memory. Cpu (Allocatable (Node.Status (exampleNode name cpu memory)))
        = NewCPUQuantity cpu"
    "\<And>name cpu memory. Memory_of (Allocatable (Node.Status (exampleNode name cpu memory)))
        = NewMemoryQuantity memory"
    by (simp_all add: exampleNode_def Cpu_def Memory_of_def ResourceCPU_def ResourceMemory_def)
  have zero: "LargestAvailableCPU newNodeAvailableCapacity = newResourceItem 0 0"
    "LargestAvailableMemory newNodeAvailableCapacity = newResourceItem 0 0"
    by (simp_all add: newNodeAvailableCapacity_def newEmptyResourceItem_def newResourceItem_def)
  have pair: "\<And>cpu memory.
      \<lparr>CPU = NewCPUQuantity cpu, ResourceItem.Memory = NewMemoryQuantity memory\<rparr>
        = newResourceItem cpu memory"
    by (simp add: newResourceItem_def)
  have three: "LargestAvailableCPU (fst (CalculateNodesCapacity Spec
         [exampleNode ''a'' 2000 4000, exampleNode ''b'' 1900 3900, exampleNode ''c'' 1900 3900]
         ?pa)) = newResourceItem 2000 4000"
    "LargestAvailableMemory (fst (CalculateNodesCapacity Spec
         [exampleNode ''a'' 2000 4000, exampleNode ''b'' 1900 3900, exampleNode ''c'' 1900 3900]
         ?pa)) = newResourceItem 2000 4000"
    by (simp_all add: fst_CalculateNodesCapacity nodes_body_LargestAvailableCPU
        nodes_body_LargestAvailableMemory avail alloc zero pair
        MilliValue_newResourceItem Value_newResourceItem)
  have two: "LargestAvailableCPU (fst (CalculateNodesCapacity Spec
         [exampleNode ''n'' 5 5, exampleNode ''m'' 10 10] ?pn)) = newResourceItem 10 10"
    "LargestAvailableMemory (fst (CalculateNodesCapacity Spec
         [exampleNode ''n'' 5 5, exampleNode ''m'' 10 10] ?pn)) = newResourceItem 10 10"
    by (simp_all add: fst_CalculateNodesCapacity nodes_body_LargestAvailableCPU
        nodes_body_LargestAvailableMemory avail alloc zero pair
        MilliValue_newResourceItem Value_newResourceItem)
  have differ: "newResourceItem 2000 4000 \<noteq> newResourceItem 1900 3900"
    "newResourceItem 10 10 \<noteq> newResourceItem 5 5"
    by (simp_all add: newResourceItem_def NewCPUQuantity_def NewMilliQuantity_def)
  show ?thesis
    using pods avail three two differ by (elim conjE) (intro conjI; assumption)
qed

section \<open>Available resources of a node\<close>

lemma sumByFunc_loop:
  "foldl (\<lambda>ret pod. if isPodUsingNodeResources pod then ret + f pod else ret) acc pods
     = acc + (\<Sum>pod\<leftarrow>filter isPodUsingNodeResources pods. (f pod :: int64))"
  by (induction pods arbitrary: acc) (simp_all add: add.assoc)

lemma sumByFunc_filter:
  "sumByFunc pods f = (\<Sum>pod\<leftarrow>filter isPodUsingNodeResources pods. f pod)"
  by (simp add: sumByFunc_def sumByFunc_loop)

lemma GetNodeAvailableResources_eq:
  "GetNodeAvailableResources cprr node groups =
     newResourceItem
       (MilliValue (Cpu (Allocatable (Node.Status node)))
          - (\<Sum>pod\<leftarrow>filter isPodUsingNodeResources
                (case groups (Name node) of Some ps \<Rightarrow> ps | None \<Rightarrow> []). MilliCPU (cprr pod)))
       (Value (Memory_of (Allocatable (Node.Status node)))
          - (\<Sum>pod\<leftarrow>filter isPodUsingNodeResources
                (case groups (Name node) of Some ps \<Rightarrow> ps | None \<Rightarrow> []).
                Resource.Memory (cprr pod)))"
  by (simp add: GetNodeAvailableResources_def Let_def sumByFunc_filter)

lemma word_of_int_sum_sint:
  "word_of_int (\<Sum>x\<leftarrow>xs. sint (f x)) = (\<Sum>x\<leftarrow>xs. (f x :: int64))"
  by (induction xs) simp_all

lemma sint_diff_sum_exact:
  fixes a :: int64
  assumes "- (2 ^ 63) \<le> sint a - (\<Sum>x\<leftarrow>xs. sint (f x))"
    and "sint a - (\<Sum>x\<leftarrow>xs. sint (f x)) < 2 ^ 63"
  shows "sint (a - (\<Sum>x\<leftarrow>xs. f x)) = sint a - (\<Sum>x\<leftarrow>xs. sint (f x))"
proof -
  have "a - (\<Sum>x\<leftarrow>xs. f x) = word_of_int (sint a - (\<Sum>x\<leftarrow>xs. sint (f x)))"
    by (simp add: word_of_int_sum_sint)
  then have "sint (a - (\<Sum>x\<leftarrow>xs. f x))
               = signed_take_bit 63 (sint a - (\<Sum>x\<leftarrow>xs. sint (f x)))"
    by (simp only: sint_sbintrunc') simp
  then show ?thesis
    using assms by (simp add: signed_take_bit_int_eq_self)
qed


text \<open>
  C2. For every node and every grouping, the CPU of \<^verbatim>\<open>GetNodeAvailableResources\<close> in
  milli-units is the node's allocatable CPU in milli-units minus the sum of the extracted
  CPU requests of exactly those pods of the node's group (the pods stored under the node's
  name, none if the name is absent) that pass \<^verbatim>\<open>isPodUsingNodeResources\<close>, and its Memory
  in bytes is the allocatable memory in bytes minus the sum of their memory requests.
  Sum and difference are Go's int64 operations; the result is the quantity of that int64
  value, not clamped: whenever the exact difference fits int64 the signed value of the
  result is that difference, negative or not.
\<close>

theorem node_available_resources:
  fixes groups :: "string \<rightharpoonup> 'spec Pod list" and node :: Node
  defines "used \<equiv> filter isPodUsingNodeResources
                     (case groups (Name node) of Some ps \<Rightarrow> ps | None \<Rightarrow> [])"
  shows
    "GetNodeAvailableResources cprr node groups =
       newResourceItem
         (MilliValue (Cpu (Allocatable (Node.Status node)))
            - (\<Sum>pod\<leftarrow>used. MilliCPU (cprr pod)))
         (Value (Memory_of (Allocatable (Node.Status node)))
            - (\<Sum>pod\<leftarrow>used. Resource.Memory (cprr pod)))
     \<and> MilliValue (CPU (GetNodeAvailableResources cprr node groups))
         = MilliValue (Cpu (Allocatable (Node.Status node))) - (\<Sum>pod\<leftarrow>used. MilliCPU (cprr pod))
     \<and> Value (ResourceItem.Memory (GetNodeAvailableResources cprr node groups))
         = Value (Memory_of (Allocatable (Node.Status node)))
             - (\<Sum>pod\<leftarrow>used. Resource.Memory (cprr pod))
     \<and> (- (2 ^ 63) \<le> sint (MilliValue (Cpu (Allocatable (Node.Status node))))
                        - (\<Sum>pod\<leftarrow>used. sint (MilliCPU (cprr pod))) \<and>
        sint (MilliValue (Cpu (Allocatable (Node.Status node))))
           - (\<Sum>pod\<leftarrow>used. sint (MilliCPU (cprr pod))) < 2 ^ 63
        \<longrightarrow> sint (MilliValue (CPU (GetNodeAvailableResources cprr node groups)))
              = sint (MilliValue (Cpu (Allocatable (Node.Status node))))
                  - (\<Sum>pod\<leftarrow>used. sint (MilliCPU (cprr pod))))
     \<and> (- (2 ^ 63) \<le> sint (Value (Memory_of (Allocatable (Node.Status node))))
                        - (\<Sum>pod\<leftarrow>used. sint (Resource.Memory (cprr pod))) \<and>
        sint (Value (Memory_of (Allocatable (Node.Status node))))
           - (\<Sum>pod\<leftarrow>used. sint (Resource.Memory (cprr pod))) < 2 ^ 63
        \<longrightarrow> sint (Value (ResourceItem.Memory (GetNodeAvailableResources cprr node groups)))
              = sint (Value (Memory_of (Allocatable (Node.Status node))))
                  - (\<Sum>pod\<leftarrow>used. sint (Resource.Memory (cprr pod))))"
proof -
  have eq: "GetNodeAvailableResources cprr node groups =
       newResourceItem
         (MilliValue (Cpu (Allocatable (Node.Status node)))
            - (\<Sum>pod\<leftarrow>used. MilliCPU (cprr pod)))
         (Value (Memory_of (Allocatable (Node.Status node)))
            - (\<Sum>pod\<leftarrow>used. Resource.Memory (cprr pod)))"
    unfolding used_def by (rule GetNodeAvailableResources_eq)
  have cpu: "MilliValue (CPU (GetNodeAvailableResources cprr node groups))
         = MilliValue (Cpu (Allocatable (Node.Status node))) - (\<Sum>pod\<leftarrow>used. MilliCPU (cprr pod))"
    by (simp only: eq MilliValue_newResourceItem)
  have mem: "Value (ResourceItem.Memory (GetNodeAvailableResources cprr node groups))
         = Value (Memory_of (Allocatable (Node.Status node)))
             - (\<Sum>pod\<leftarrow>used. Resource.Memory (cprr pod))"
    by (simp only: eq Value_newResourceItem)
  show ?thesis
  proof (intro conjI impI)
    show "GetNodeAvailableResources cprr node groups =
       newResourceItem
         (MilliValue (Cpu (Allocatable (Node.Status node)))
            - (\<Sum>pod\<leftarrow>used. MilliCPU (cprr pod)))
         (Value (Memory_of (Allocatable (Node.Status node)))
            - (\<Sum>pod\<leftarrow>used. Resource.Memory (cprr pod)))"
      by (rule eq)
    show "MilliValue (CPU (GetNodeAvailableResources cprr node groups))
         = MilliValue (Cpu (Allocatable (Node.Status node))) - (\<Sum>pod\<leftarrow>used. MilliCPU (cprr pod))"
      by (rule cpu)
    show "Value (ResourceItem.Memory (GetNodeAvailableResources cprr node groups))
         = Value (Memory_of (Allocatable (Node.Status node)))
             - (\<Sum>pod\<leftarrow>used. Resource.Memory (cprr pod))"
      by (rule mem)
  next
    assume "- (2 ^ 63) \<le> sint (MilliValue (Cpu (Allocatable (Node.Status node))))
                        - (\<Sum>pod\<leftarrow>used. sint (MilliCPU (cprr pod))) \<and>
        sint (MilliValue (Cpu (Allocatable (Node.Status node))))
           - (\<Sum>pod\<leftarrow>used. sint (MilliCPU (cprr pod))) < 2 ^ 63"
    then show "sint (MilliValue (CPU (GetNodeAvailableResources cprr node groups)))
              = sint (MilliValue (Cpu (Allocatable (Node.Status node))))
                  - (\<Sum>pod\<leftarrow>used. sint (MilliCPU (cprr pod)))"
      unfolding cpu by (intro sint_diff_sum_exact) simp_all
  next
    assume "- (2 ^ 63) \<le> sint (Value (Memory_of (Allocatable (Node.Status node))))
                        - (\<Sum>pod\<leftarrow>used. sint (Resource.Memory (cprr pod))) \<and>
        sint (Value (Memory_of (Allocatable (Node.Status node))))
           - (\<Sum>pod\<leftarrow>used. sint (Resource.Memory (cprr pod))) < 2 ^ 63"
    then show "sint (Value (ResourceItem.Memory (GetNodeAvailableResources cprr node groups)))
              = sint (Value (Memory_of (Allocatable (Node.Status node))))
                  - (\<Sum>pod\<leftarrow>used. sint (Resource.Memory (cprr pod)))"
      unfolding mem by (intro sint_diff_sum_exact) simp_all
  qed
qed


text \<open>
  The spec's example: a node with 2000 milli-CPU and 4 GiB allocatable, a scheduled Running
  pod requesting 500 milli-CPU and 1 GiB, and a scheduled Succeeded pod requesting 1000
  milli-CPU, both grouped under the node: 1500 milli-CPU and 3 GiB are available. A node
  with 1000 milli-CPU and 1000 bytes holding a pod that requests 1500 and 2000: the result
  is negative.
\<close>

theorem node_available_resources_witness:
  "sint (MilliValue (CPU (GetNodeAvailableResources Spec (exampleNode ''a'' 2000 4294967296)
      (mapPods [examplePod PodRunning scheduledTrue ''a'' 500 1073741824,
                examplePod PodSucceeded scheduledTrue ''a'' 1000 0])))) = 1500
   \<and> sint (Value (ResourceItem.Memory
      (GetNodeAvailableResources Spec (exampleNode ''a'' 2000 4294967296)
      (mapPods [examplePod PodRunning scheduledTrue ''a'' 500 1073741824,
                examplePod PodSucceeded scheduledTrue ''a'' 1000 0])))) = 3221225472
   \<and> sint (MilliValue (CPU (GetNodeAvailableResources Spec (exampleNode ''b'' 1000 1000)
      (mapPods [examplePod PodRunning scheduledTrue ''b'' 1500 2000])))) = - 500
   \<and> sint (Value (ResourceItem.Memory
      (GetNodeAvailableResources Spec (exampleNode ''b'' 1000 1000)
      (mapPods [examplePod PodRunning scheduledTrue ''b'' 1500 2000])))) = - 1000"
proof -
  let ?a = "exampleNode ''a'' 2000 4294967296"
  let ?ga = "mapPods [examplePod PodRunning scheduledTrue ''a'' 500 1073741824,
                examplePod PodSucceeded scheduledTrue ''a'' 1000 0]"
  let ?b = "exampleNode ''b'' 1000 1000"
  let ?gb = "mapPods [examplePod PodRunning scheduledTrue ''b'' 1500 2000]"
  have used_a: "filter isPodUsingNodeResources
        (case ?ga (Name ?a) of Some ps \<Rightarrow> ps | None \<Rightarrow> [])
      = [examplePod PodRunning scheduledTrue ''a'' 500 1073741824]"
    by (simp add: mapPods_def mapPods_body_def exampleNode_def examplePod_def Let_def
        isPodUsingNodeResources_def isPodScheduled_def scheduledTrue_def
        PodRunning_def PodPending_def PodSucceeded_def)
  have used_b: "filter isPodUsingNodeResources
        (case ?gb (Name ?b) of Some ps \<Rightarrow> ps | None \<Rightarrow> [])
      = [examplePod PodRunning scheduledTrue ''b'' 1500 2000]"
    by (simp add: mapPods_def mapPods_body_def exampleNode_def examplePod_def Let_def
        isPodUsingNodeResources_def isPodScheduled_def scheduledTrue_def
        PodRunning_def PodPending_def PodSucceeded_def)
  have alloc_a: "MilliValue (Cpu (Allocatable (Node.Status ?a))) = 2000"
    "Value (Memory_of (Allocatable (Node.Status ?a))) = 4294967296"
    by (simp_all add: exampleNode_def Cpu_def Memory_of_def ResourceCPU_def ResourceMemory_def
        MilliValue_NewCPUQuantity Value_NewMemoryQuantity)
  have alloc_b: "MilliValue (Cpu (Allocatable (Node.Status ?b))) = 1000"
    "Value (Memory_of (Allocatable (Node.Status ?b))) = 1000"
    by (simp_all add: exampleNode_def Cpu_def Memory_of_def ResourceCPU_def ResourceMemory_def
        MilliValue_NewCPUQuantity Value_NewMemoryQuantity)
  have requests:
    "Spec (examplePod PodRunning scheduledTrue ''a'' 500 1073741824)
       = \<lparr>MilliCPU = 500, Resource.Memory = 1073741824\<rparr>"
    "Spec (examplePod PodRunning scheduledTrue ''b'' 1500 2000)
       = \<lparr>MilliCPU = 1500, Resource.Memory = 2000\<rparr>"
    by (simp_all add: examplePod_def)
  note inst_a = node_available_resources [of Spec ?a ?ga, unfolded used_a alloc_a]
  note inst_b = node_available_resources [of Spec ?b ?gb, unfolded used_b alloc_b]
  have "sint (MilliValue (CPU (GetNodeAvailableResources Spec ?a ?ga))) = 1500"
    using inst_a by (simp add: requests MilliValue_newResourceItem Value_newResourceItem)
  moreover have "sint (Value (ResourceItem.Memory (GetNodeAvailableResources Spec ?a ?ga)))
      = 3221225472"
    using inst_a by (simp add: requests MilliValue_newResourceItem Value_newResourceItem)
  moreover have "sint (MilliValue (CPU (GetNodeAvailableResources Spec ?b ?gb))) = - 500"
    using inst_b by (simp add: requests MilliValue_newResourceItem Value_newResourceItem)
  moreover have "sint (Value (ResourceItem.Memory (GetNodeAvailableResources Spec ?b ?gb)))
      = - 1000"
    using inst_b by (simp add: requests MilliValue_newResourceItem Value_newResourceItem)
  ultimately show ?thesis by (simp only: simp_thms)
qed

section \<open>Grouping\<close>

lemma in_set_not_Nil: "x \<in> set xs \<Longrightarrow> xs \<noteq> []"
  by auto

lemma mapPods_loop:
  "foldl mapPods_body m pods k =
     (case m k of
        None \<Rightarrow>
          (if filter (\<lambda>pod. NominatedNodeName (Pod.Status pod) = k) pods = [] then None
           else Some (filter (\<lambda>pod. NominatedNodeName (Pod.Status pod) = k) pods))
      | Some val \<Rightarrow> Some (val @ filter (\<lambda>pod. NominatedNodeName (Pod.Status pod) = k) pods))"
proof (induction pods arbitrary: m)
  case Nil
  then show ?case by (simp split: option.split)
next
  case (Cons p pods)
  show ?case
    by (simp add: Cons.IH) (simp add: mapPods_body_def Let_def split: option.split)
qed

lemma mapPods_filter:
  "mapPods pods k =
     (if filter (\<lambda>pod. NominatedNodeName (Pod.Status pod) = k) pods = [] then None
      else Some (filter (\<lambda>pod. NominatedNodeName (Pod.Status pod) = k) pods))"
  by (simp add: mapPods_def mapPods_loop)

text \<open>
  C7. For every pod list and every key, the group of \<^verbatim>\<open>mapPods\<close> under the key is the
  sublist, in input order, of the pods whose NominatedNodeName is the key, and the key is
  absent when there is no such pod; this holds for the empty key as for any other. So a
  pod of the list is in the group of its own NominatedNodeName, as often as in the list,
  and in no group of another key.
\<close>

theorem mapPods_groups:
  fixes pods :: "'spec Pod list"
  shows
    "mapPods pods k =
       (if filter (\<lambda>pod. NominatedNodeName (Pod.Status pod) = k) pods = [] then None
        else Some (filter (\<lambda>pod. NominatedNodeName (Pod.Status pod) = k) pods))
     \<and> mapPods pods [] =
       (if filter (\<lambda>pod. NominatedNodeName (Pod.Status pod) = []) pods = [] then None
        else Some (filter (\<lambda>pod. NominatedNodeName (Pod.Status pod) = []) pods))
     \<and> (p \<in> set pods \<longrightarrow>
          (\<exists>g. mapPods pods (NominatedNodeName (Pod.Status p)) = Some g \<and>
                count_list g p = count_list pods p \<and> p \<in> set g) \<and>
          (\<forall>k' g'. mapPods pods k' = Some g' \<and> p \<in> set g'
                \<longrightarrow> k' = NominatedNodeName (Pod.Status p)))"
proof (intro conjI impI)
  show "mapPods pods k =
       (if filter (\<lambda>pod. NominatedNodeName (Pod.Status pod) = k) pods = [] then None
        else Some (filter (\<lambda>pod. NominatedNodeName (Pod.Status pod) = k) pods))"
    by (rule mapPods_filter)
  show "mapPods pods [] =
       (if filter (\<lambda>pod. NominatedNodeName (Pod.Status pod) = []) pods = [] then None
        else Some (filter (\<lambda>pod. NominatedNodeName (Pod.Status pod) = []) pods))"
    by (rule mapPods_filter)
next
  assume p: "p \<in> set pods"
  let ?g = "filter (\<lambda>pod. NominatedNodeName (Pod.Status pod) = NominatedNodeName (Pod.Status p)) pods"
  have mem: "p \<in> set ?g" using p by simp
  then have ne: "?g \<noteq> []" by (rule in_set_not_Nil)
  have "mapPods pods (NominatedNodeName (Pod.Status p)) = Some ?g"
    using ne by (simp add: mapPods_filter)
  moreover have "count_list ?g p = count_list pods p"
    by (induction pods) simp_all
  ultimately show "\<exists>g. mapPods pods (NominatedNodeName (Pod.Status p)) = Some g \<and>
                count_list g p = count_list pods p \<and> p \<in> set g"
    using mem by blast
next
  assume "p \<in> set pods"
  show "\<forall>k' g'. mapPods pods k' = Some g' \<and> p \<in> set g'
                \<longrightarrow> k' = NominatedNodeName (Pod.Status p)"
    by (auto simp: mapPods_filter split: if_splits)
qed

text \<open>
  Four pods, two nominated to node a and two with no nominated node: two groups, each in
  input order.
\<close>

theorem mapPods_groups_witness:
  "mapPods [examplePod PodRunning [] ''a'' 1 1, examplePod PodPending [] [] 2 2,
            examplePod PodPending [] ''a'' 3 3, examplePod PodPending [] [] 4 4] ''a''
     = Some [examplePod PodRunning [] ''a'' 1 1, examplePod PodPending [] ''a'' 3 3]
   \<and> mapPods [examplePod PodRunning [] ''a'' 1 1, examplePod PodPending [] [] 2 2,
            examplePod PodPending [] ''a'' 3 3, examplePod PodPending [] [] 4 4] []
     = Some [examplePod PodPending [] [] 2 2, examplePod PodPending [] [] 4 4]
   \<and> (\<exists>g. mapPods [examplePod PodRunning [] ''a'' 1 1, examplePod PodPending [] [] 2 2,
            examplePod PodPending [] ''a'' 3 3, examplePod PodPending [] [] 4 4] ''a'' = Some g
         \<and> count_list g (examplePod PodRunning [] ''a'' 1 1) = 1
         \<and> examplePod PodRunning [] ''a'' 1 1 \<in> set g)"
proof -
  let ?pods = "[examplePod PodRunning [] ''a'' 1 1, examplePod PodPending [] [] 2 2,
            examplePod PodPending [] ''a'' 3 3, examplePod PodPending [] [] 4 4]"
  have a: "filter (\<lambda>pod. NominatedNodeName (Pod.Status pod) = ''a'') ?pods
      = [examplePod PodRunning [] ''a'' 1 1, examplePod PodPending [] ''a'' 3 3]"
    by (simp add: examplePod_def)
  have e: "filter (\<lambda>pod. NominatedNodeName (Pod.Status pod) = []) ?pods
      = [examplePod PodPending [] [] 2 2, examplePod PodPending [] [] 4 4]"
    by (simp add: examplePod_def)
  note inst = mapPods_groups [of ?pods "''a''" "examplePod PodRunning [] ''a'' 1 1"]
  have "mapPods ?pods ''a''
     = Some [examplePod PodRunning [] ''a'' 1 1, examplePod PodPending [] ''a'' 3 3]"
    using inst [THEN conjunct1] by (simp only: a) simp
  moreover have "mapPods ?pods []
     = Some [examplePod PodPending [] [] 2 2, examplePod PodPending [] [] 4 4]"
    using inst [THEN conjunct2, THEN conjunct1] by (simp only: e) simp
  moreover have "\<exists>g. mapPods ?pods ''a'' = Some g
         \<and> count_list g (examplePod PodRunning [] ''a'' 1 1) = 1
         \<and> examplePod PodRunning [] ''a'' 1 1 \<in> set g"
  proof -
    have mem: "examplePod PodRunning [] ''a'' 1 1 \<in> set ?pods" by simp
    have key: "NominatedNodeName (Pod.Status (examplePod PodRunning [] ''a'' 1 1)) = ''a''"
      by (simp add: examplePod_def)
    have cnt: "count_list ?pods (examplePod PodRunning [] ''a'' 1 1) = 1"
      by (simp add: examplePod_def)
    from inst [THEN conjunct2, THEN conjunct2, THEN mp, OF mem, THEN conjunct1]
    show ?thesis by (simp only: key cnt)
  qed
  ultimately show ?thesis by (simp only: simp_thms)
qed

section \<open>The PodScheduled condition\<close>

lemma isPodScheduled_loop_find:
  "isPodScheduled_loop conditions \<longleftrightarrow>
     (case find (\<lambda>c. Type c = PodScheduled) conditions of
        None \<Rightarrow> False
      | Some c \<Rightarrow> PodCondition.Status c = ConditionTrue)"
  by (induction conditions) simp_all

lemma isPodScheduled_loop_contains:
  "isPodScheduled_loop conditions \<Longrightarrow>
     \<exists>c\<in>set conditions. Type c = PodScheduled \<and> PodCondition.Status c = ConditionTrue"
  by (induction conditions) (auto split: if_splits)

lemma isPodScheduled_loop_unique:
  "length (filter (\<lambda>c. Type c = PodScheduled) conditions) \<le> 1 \<Longrightarrow>
   \<exists>c\<in>set conditions. Type c = PodScheduled \<and> PodCondition.Status c = ConditionTrue \<Longrightarrow>
   isPodScheduled_loop conditions"
proof (induction conditions)
  case Nil
  then show ?case by simp
next
  case (Cons c conditions)
  show ?case
  proof (cases "Type c = PodScheduled")
    case True
    then have "filter (\<lambda>c. Type c = PodScheduled) conditions = []"
      using Cons.prems(1) by simp
    then have "\<forall>d\<in>set conditions. Type d \<noteq> PodScheduled"
      by (simp add: filter_empty_conv)
    then have "PodCondition.Status c = ConditionTrue"
      using Cons.prems(2) True by auto
    then show ?thesis using True by simp
  next
    case False
    then show ?thesis using Cons by auto
  qed
qed

lemma isPodScheduled_loop_absent:
  "\<forall>c\<in>set conditions. Type c \<noteq> PodScheduled \<Longrightarrow> \<not> isPodScheduled_loop conditions"
  by (induction conditions) simp_all

text \<open>
  C4 (amended). \<^verbatim>\<open>isPodScheduled\<close> returns true if and only if the first condition of type
  PodScheduled in the pod's condition list has status True. If it returns true, the list
  contains a PodScheduled condition with status True; the converse holds when the list has
  at most one condition of type PodScheduled. A pod with no PodScheduled condition, or
  whose first PodScheduled condition has another status (False, Unknown), is not
  scheduled.
\<close>

theorem isPodScheduled_first_condition:
  fixes pod :: "'spec Pod"
  shows
    "(isPodScheduled pod \<longleftrightarrow>
        (case find (\<lambda>c. Type c = PodScheduled) (Conditions (Pod.Status pod)) of
           None \<Rightarrow> False
         | Some c \<Rightarrow> PodCondition.Status c = ConditionTrue))
     \<and> (isPodScheduled pod \<longrightarrow>
          (\<exists>c\<in>set (Conditions (Pod.Status pod)).
              Type c = PodScheduled \<and> PodCondition.Status c = ConditionTrue))
     \<and> (length (filter (\<lambda>c. Type c = PodScheduled) (Conditions (Pod.Status pod))) \<le> 1 \<longrightarrow>
          (isPodScheduled pod \<longleftrightarrow>
             (\<exists>c\<in>set (Conditions (Pod.Status pod)).
                 Type c = PodScheduled \<and> PodCondition.Status c = ConditionTrue)))
     \<and> ((\<forall>c\<in>set (Conditions (Pod.Status pod)). Type c \<noteq> PodScheduled) \<longrightarrow>
          \<not> isPodScheduled pod)"
  unfolding isPodScheduled_def
  using isPodScheduled_loop_find [of "Conditions (Pod.Status pod)"]
    isPodScheduled_loop_contains [of "Conditions (Pod.Status pod)"]
    isPodScheduled_loop_unique [of "Conditions (Pod.Status pod)"]
    isPodScheduled_loop_absent [of "Conditions (Pod.Status pod)"]
  by blast


text \<open>
  A pod whose only PodScheduled condition has status True is scheduled; pods whose only
  PodScheduled condition has status False or Unknown, and a pod with no condition, are
  not.
\<close>

theorem isPodScheduled_first_condition_witness:
  "isPodScheduled (examplePod PodRunning
       [\<lparr>Type = ''Ready'', PodCondition.Status = ConditionFalse\<rparr>,
        \<lparr>Type = PodScheduled, PodCondition.Status = ConditionTrue\<rparr>] ''a'' 0 0)
   \<and> \<not> isPodScheduled (examplePod PodPending
       [\<lparr>Type = PodScheduled, PodCondition.Status = ConditionFalse\<rparr>] [] 0 0)
   \<and> \<not> isPodScheduled (examplePod PodPending
       [\<lparr>Type = PodScheduled, PodCondition.Status = ConditionUnknown\<rparr>] [] 0 0)
   \<and> \<not> isPodScheduled (examplePod PodPending [] [] 0 0)"
proof -
  let ?t = "examplePod PodRunning
       [\<lparr>Type = ''Ready'', PodCondition.Status = ConditionFalse\<rparr>,
        \<lparr>Type = PodScheduled, PodCondition.Status = ConditionTrue\<rparr>] ''a'' 0 0"
  let ?f = "examplePod PodPending
       [\<lparr>Type = PodScheduled, PodCondition.Status = ConditionFalse\<rparr>] [] 0 0"
  let ?u = "examplePod PodPending
       [\<lparr>Type = PodScheduled, PodCondition.Status = ConditionUnknown\<rparr>] [] 0 0"
  let ?n = "examplePod PodPending [] [] (0::int64) (0::int64)"
  have one: "length (filter (\<lambda>c. Type c = PodScheduled) (Conditions (Pod.Status ?t))) \<le> 1"
    "length (filter (\<lambda>c. Type c = PodScheduled) (Conditions (Pod.Status ?f))) \<le> 1"
    "length (filter (\<lambda>c. Type c = PodScheduled) (Conditions (Pod.Status ?u))) \<le> 1"
    by (simp_all add: examplePod_def PodScheduled_def)
  have none: "\<forall>c\<in>set (Conditions (Pod.Status ?n)). Type c \<noteq> PodScheduled"
    by (simp add: examplePod_def)
  have "isPodScheduled ?t"
    using isPodScheduled_first_condition [of ?t, THEN conjunct2, THEN conjunct2, THEN conjunct1,
        THEN mp, OF one(1)]
    by (simp add: examplePod_def PodScheduled_def)
  moreover have "\<not> isPodScheduled ?f"
    using isPodScheduled_first_condition [of ?f, THEN conjunct2, THEN conjunct2, THEN conjunct1,
        THEN mp, OF one(2)]
    by (simp add: examplePod_def ConditionTrue_def ConditionFalse_def)
  moreover have "\<not> isPodScheduled ?u"
    using isPodScheduled_first_condition [of ?u, THEN conjunct2, THEN conjunct2, THEN conjunct1,
        THEN mp, OF one(3)]
    by (simp add: examplePod_def ConditionTrue_def ConditionUnknown_def)
  moreover have "\<not> isPodScheduled ?n"
    by (rule isPodScheduled_first_condition [of ?n, THEN conjunct2, THEN conjunct2,
        THEN conjunct2, THEN mp, OF none])
  ultimately show ?thesis by (simp only: simp_thms)
qed

text \<open>
  Without the restriction to the first PodScheduled condition the statement fails: a
  list contains a PodScheduled condition with status True, but the loop returns at the
  first one, whose status is False.
\<close>

theorem isPodScheduled_duplicate_counterexample:
  "\<lparr>Type = PodScheduled, PodCondition.Status = ConditionTrue\<rparr>
     \<in> set (Conditions (Pod.Status (examplePod PodRunning
          [\<lparr>Type = PodScheduled, PodCondition.Status = ConditionFalse\<rparr>,
           \<lparr>Type = PodScheduled, PodCondition.Status = ConditionTrue\<rparr>] ''a'' 0 0)))
   \<and> \<not> isPodScheduled (examplePod PodRunning
          [\<lparr>Type = PodScheduled, PodCondition.Status = ConditionFalse\<rparr>,
           \<lparr>Type = PodScheduled, PodCondition.Status = ConditionTrue\<rparr>] ''a'' 0 0)"
  by (simp add: isPodScheduled_def examplePod_def ConditionTrue_def ConditionFalse_def)

section \<open>Capacity of the nodes\<close>

text \<open>
  C3. For every node list and pod list, Total of \<^verbatim>\<open>CalculateNodesCapacity\<close> is the sum of
  the allocatable CPU and of the allocatable Memory over all supplied nodes. Processing
  one more node replaces LargestAvailableCPU by that node's allocatable (CPU, Memory)
  pair exactly when the node's available CPU is strictly greater than the CPU of the held
  LargestAvailableCPU, and otherwise keeps it; likewise, and independently,
  LargestAvailableMemory by available memory.
\<close>

theorem nodes_capacity_total_and_largest:
  fixes pods :: "'spec Pod list"
  shows
    "NodeAvailableCapacity.Total (fst (CalculateNodesCapacity cprr nodes pods)) =
       \<lparr>CPU = (\<Sum>node\<leftarrow>nodes. Cpu (Allocatable (Node.Status node))),
        ResourceItem.Memory = (\<Sum>node\<leftarrow>nodes. Memory_of (Allocatable (Node.Status node)))\<rparr>
     \<and> LargestAvailableCPU (fst (CalculateNodesCapacity cprr (nodes @ [node]) pods)) =
       (if sint (MilliValue (CPU (LargestAvailableCPU
                  (fst (CalculateNodesCapacity cprr nodes pods)))))
             < sint (MilliValue (CPU (GetNodeAvailableResources cprr node (mapPods pods))))
        then \<lparr>CPU = Cpu (Allocatable (Node.Status node)),
              ResourceItem.Memory = Memory_of (Allocatable (Node.Status node))\<rparr>
        else LargestAvailableCPU (fst (CalculateNodesCapacity cprr nodes pods)))
     \<and> LargestAvailableMemory (fst (CalculateNodesCapacity cprr (nodes @ [node]) pods)) =
       (if sint (Value (ResourceItem.Memory (LargestAvailableMemory
                  (fst (CalculateNodesCapacity cprr nodes pods)))))
             < sint (Value (ResourceItem.Memory
                  (GetNodeAvailableResources cprr node (mapPods pods))))
        then \<lparr>CPU = Cpu (Allocatable (Node.Status node)),
              ResourceItem.Memory = Memory_of (Allocatable (Node.Status node))\<rparr>
        else LargestAvailableMemory (fst (CalculateNodesCapacity cprr nodes pods)))"
  by (simp only: CalculateNodesCapacity_Total CalculateNodesCapacity_snoc
      nodes_body_LargestAvailableCPU nodes_body_LargestAvailableMemory simp_thms)

text \<open>
  A node with 2000 milli-CPU and 4 GiB allocatable and a scheduled Running pod requesting
  500 milli-CPU and 1 GiB: 1500 milli-CPU and 3 GiB are available, and both largest
  fields hold the allocatable pair. A second node with 1800 milli-CPU and 5 GiB and no pods
  has more available CPU (1800) than the first, but not more than the held 2000: it
  replaces LargestAvailableMemory only. Total counts both nodes.
\<close>

theorem nodes_capacity_total_and_largest_witness:
  "GetNodeAvailableResources Spec (exampleNode ''a'' 2000 4294967296)
      (mapPods [examplePod PodRunning scheduledTrue ''a'' 500 1073741824])
     = newResourceItem 1500 3221225472
   \<and> LargestAvailableCPU (fst (CalculateNodesCapacity Spec
        ([] @ [exampleNode ''a'' 2000 4294967296])
        [examplePod PodRunning scheduledTrue ''a'' 500 1073741824]))
     = newResourceItem 2000 4294967296
   \<and> LargestAvailableCPU (fst (CalculateNodesCapacity Spec
        ([exampleNode ''a'' 2000 4294967296] @ [exampleNode ''b'' 1800 5368709120])
        [examplePod PodRunning scheduledTrue ''a'' 500 1073741824]))
     = newResourceItem 2000 4294967296
   \<and> LargestAvailableMemory (fst (CalculateNodesCapacity Spec
        ([exampleNode ''a'' 2000 4294967296] @ [exampleNode ''b'' 1800 5368709120])
        [examplePod PodRunning scheduledTrue ''a'' 500 1073741824]))
     = newResourceItem 1800 5368709120
   \<and> NodeAvailableCapacity.Total (fst (CalculateNodesCapacity Spec
        [exampleNode ''a'' 2000 4294967296, exampleNode ''b'' 1800 5368709120]
        [examplePod PodRunning scheduledTrue ''a'' 500 1073741824]))
     = newResourceItem 3800 9663676416"
proof -
  let ?a = "exampleNode ''a'' 2000 4294967296"
  let ?b = "exampleNode ''b'' 1800 5368709120"
  let ?pods = "[examplePod PodRunning scheduledTrue ''a'' 500 1073741824]"
  have alloc_a: "Cpu (Allocatable (Node.Status ?a)) = NewCPUQuantity 2000"
    "Memory_of (Allocatable (Node.Status ?a)) = NewMemoryQuantity 4294967296"
    by (simp_all add: exampleNode_def Cpu_def Memory_of_def ResourceCPU_def ResourceMemory_def)
  have alloc_b: "Cpu (Allocatable (Node.Status ?b)) = NewCPUQuantity 1800"
    "Memory_of (Allocatable (Node.Status ?b)) = NewMemoryQuantity 5368709120"
    by (simp_all add: exampleNode_def Cpu_def Memory_of_def ResourceCPU_def ResourceMemory_def)
  have group_a: "mapPods ?pods (Name ?a) = Some ?pods"
    by (simp add: mapPods_def mapPods_body_def exampleNode_def examplePod_def Let_def)
  have group_b: "mapPods ?pods (Name ?b) = None"
    by (simp add: mapPods_def mapPods_body_def exampleNode_def examplePod_def Let_def)
  have using_a: "isPodUsingNodeResources (examplePod PodRunning scheduledTrue ''a'' 500 1073741824)"
    by (simp add: isPodUsingNodeResources_def isPodScheduled_def scheduledTrue_def
        examplePod_def)
  have avail_a: "GetNodeAvailableResources Spec ?a (mapPods ?pods)
      = newResourceItem 1500 3221225472"
    by (simp add: GetNodeAvailableResources_def Let_def group_a sumByFunc_def using_a alloc_a
        MilliValue_NewCPUQuantity Value_NewMemoryQuantity)
       (simp add: examplePod_def)
  have avail_b: "GetNodeAvailableResources Spec ?b (mapPods ?pods)
      = newResourceItem 1800 5368709120"
    by (simp add: GetNodeAvailableResources_def Let_def group_b sumByFunc_def alloc_b
        MilliValue_NewCPUQuantity Value_NewMemoryQuantity)
  have start: "fst (CalculateNodesCapacity Spec [] ?pods) = newNodeAvailableCapacity"
    by (simp add: CalculateNodesCapacity_def Let_def)
  have zero: "LargestAvailableCPU newNodeAvailableCapacity = newResourceItem 0 0"
    "LargestAvailableMemory newNodeAvailableCapacity = newResourceItem 0 0"
    by (simp_all add: newNodeAvailableCapacity_def newEmptyResourceItem_def newResourceItem_def)
  have pair_a: "\<lparr>CPU = NewCPUQuantity 2000, ResourceItem.Memory = NewMemoryQuantity 4294967296\<rparr>
      = newResourceItem 2000 4294967296"
    by (simp add: newResourceItem_def)
  have pair_b: "\<lparr>CPU = NewCPUQuantity 1800, ResourceItem.Memory = NewMemoryQuantity 5368709120\<rparr>
      = newResourceItem 1800 5368709120"
    by (simp add: newResourceItem_def)
  note first = nodes_capacity_total_and_largest [of Spec "[]" ?pods ?a,
      unfolded start zero avail_a alloc_a pair_a
        MilliValue_newResourceItem Value_newResourceItem]
  have cpu1: "LargestAvailableCPU (fst (CalculateNodesCapacity Spec ([] @ [?a]) ?pods))
      = newResourceItem 2000 4294967296"
    using first by simp
  have mem1: "LargestAvailableMemory (fst (CalculateNodesCapacity Spec ([] @ [?a]) ?pods))
      = newResourceItem 2000 4294967296"
    using first by simp
  have cpu1': "LargestAvailableCPU (fst (CalculateNodesCapacity Spec [?a] ?pods))
      = newResourceItem 2000 4294967296"
    using cpu1 by simp
  have mem1': "LargestAvailableMemory (fst (CalculateNodesCapacity Spec [?a] ?pods))
      = newResourceItem 2000 4294967296"
    using mem1 by simp
  note second = nodes_capacity_total_and_largest [of Spec "[?a]" ?pods ?b,
      unfolded cpu1' mem1' avail_b alloc_b pair_b
        MilliValue_newResourceItem Value_newResourceItem]
  have cpu2: "LargestAvailableCPU (fst (CalculateNodesCapacity Spec ([?a] @ [?b]) ?pods))
      = newResourceItem 2000 4294967296"
    using second by simp
  have mem2: "LargestAvailableMemory (fst (CalculateNodesCapacity Spec ([?a] @ [?b]) ?pods))
      = newResourceItem 1800 5368709120"
    using second by simp
  have total: "NodeAvailableCapacity.Total (fst (CalculateNodesCapacity Spec [?a, ?b] ?pods))
      = newResourceItem 3800 9663676416"
    using nodes_capacity_total_and_largest [of Spec "[?a, ?b]" ?pods ?b, THEN conjunct1]
    by (simp add: alloc_a alloc_b)
       (simp add: newResourceItem_def NewCPUQuantity_def NewMemoryQuantity_def
          NewQuantity_def NewMilliQuantity_def)
  show ?thesis
    using avail_a cpu1 cpu2 mem2 total by (simp only: simp_thms)
qed

end
